theory Spec2Isabelle
  imports Main
begin

section \<open>Data model\<close>

text \<open>
  The agent keeps a conversation of LangChain messages. A message object has a
  \<^verbatim>\<open>type\<close> (\<^verbatim>\<open>"system"\<close>, \<^verbatim>\<open>"human"\<close>, \<^verbatim>\<open>"ai"\<close>, \<^verbatim>\<open>"tool"\<close>), a content that is
  either a string or a list of parts, and the dictionaries \<^verbatim>\<open>additional_kwargs\<close>
  and \<^verbatim>\<open>response_metadata\<close>. The source reads the dictionaries through
  \<^verbatim>\<open>getattr\<close> and \<^verbatim>\<open>hasattr\<close>, so an absent attribute is \<open>None\<close> here. Python
  dictionaries are association lists looked up with \<open>map_of\<close> (\<^verbatim>\<open>dict.get\<close>).
\<close>

type_synonym pdict = "(string \<times> string) list"

datatype msg_content = Text string | Parts "pdict list"

datatype kwval = KwStr string | KwList "pdict list"

record tool_call =
  tc_name :: string
  tc_args :: pdict
  tc_id :: "string option"

record message =
  mtype :: string
  content :: msg_content
  additional_kwargs :: "(string \<times> kwval) list option"
  tool_calls :: "tool_call list"
  response_metadata :: "(string \<times> string option) list option"
  tool_call_id :: "string option"

text \<open>Python truthiness of an optional string: \<^verbatim>\<open>None\<close> and \<^verbatim>\<open>""\<close> are false.\<close>

fun truthy :: "string option \<Rightarrow> bool" where
  "truthy None = False"
| "truthy (Some s) = (s \<noteq> [])"

datatype error =
    ValueError string
  | KeyError string
  | IndexError
  | AttributeError string
  | TypeError string
  | AssertionError string
  | ValidationError string

section \<open>Tool schema (nodes/call\_model.py)\<close>

datatype provider = Scrapybara | Hyperbrowser | OtherProvider string

record screen_config =
  width :: "nat option"
  height :: "nat option"

record session_params =
  screen :: "screen_config option"

datatype prompt = PromptStr string | PromptMsg message

record configuration =
  cfg_provider :: "provider option"
  cfg_environment :: string
  cfg_session_params :: "session_params option"
  cfg_zdr_enabled :: "bool option"
  cfg_prompt :: "prompt option"
  cfg_hyperbrowser_api_key :: "string option"

datatype tool_schema =
    ComputerUsePreview nat nat "string option"
  | FunctionTool string string "string list" "string list"

text \<open>
  \<^verbatim>\<open>get_openai_env_from_state_env\<close>: an \<^verbatim>\<open>if/elif/elif\<close> chain with no \<^verbatim>\<open>else\<close>; a
  Python function that falls off its end returns \<^verbatim>\<open>None\<close>.
\<close>

definition get_openai_env_from_state_env :: "string \<Rightarrow> string option" where
  "get_openai_env_from_state_env env =
     (if env = ''web'' then Some ''browser''
      else if env = ''ubuntu'' then Some ''ubuntu''
      else if env = ''windows'' then Some ''windows''
      else None)"

definition DEFAULT_DISPLAY_WIDTH :: nat where
  "DEFAULT_DISPLAY_WIDTH = 1024"

definition DEFAULT_DISPLAY_HEIGHT :: nat where
  "DEFAULT_DISPLAY_HEIGHT = 768"

definition default_screen :: screen_config where
  "default_screen = \<lparr>width = Some DEFAULT_DISPLAY_WIDTH, height = Some DEFAULT_DISPLAY_HEIGHT\<rparr>"

definition go_to_url_description :: string where
  "go_to_url_description =
     ''Navigate to a URL. Can be used when on a blank page to go to a specific URL or search engine.''"

definition get_available_tools :: "configuration \<Rightarrow> error + tool_schema list" where
  "get_available_tools c =
     (case cfg_provider c of
        Some Scrapybara \<Rightarrow>
          Inr [ComputerUsePreview DEFAULT_DISPLAY_WIDTH DEFAULT_DISPLAY_HEIGHT
                 (get_openai_env_from_state_env (cfg_environment c))]
      | Some Hyperbrowser \<Rightarrow>
          (let screen_cfg =
                 (case cfg_session_params c of
                    None \<Rightarrow> default_screen
                  | Some sp \<Rightarrow> (case screen sp of None \<Rightarrow> default_screen | Some s \<Rightarrow> s))
           in Inr [ComputerUsePreview
                     (case width screen_cfg of None \<Rightarrow> DEFAULT_DISPLAY_WIDTH | Some w \<Rightarrow> w)
                     (case height screen_cfg of None \<Rightarrow> DEFAULT_DISPLAY_HEIGHT | Some h \<Rightarrow> h)
                     (Some ''browser''),
                   FunctionTool ''go_to_url'' go_to_url_description [''url''] [''url''],
                   FunctionTool ''get_current_url'' ''Get the current URL'' [] []])
      | _ \<Rightarrow> Inl (ValueError ''Unknown provider''))"

section \<open>Router (hyperbrowser/graph.py, hyperbrowser/utils.py)\<close>

text \<open>
  \<^verbatim>\<open>is_computer_tool_call\<close> receives whatever \<^verbatim>\<open>additional_kwargs.get("tool_outputs")\<close>
  gave: \<^verbatim>\<open>None\<close>, a value that is not a list, or a list of dictionaries.
\<close>

fun is_computer_tool_call :: "kwval option \<Rightarrow> bool" where
  "is_computer_tool_call None = False"
| "is_computer_tool_call (Some (KwStr s)) = False"
| "is_computer_tool_call (Some (KwList outs)) =
     (outs \<noteq> [] \<and> list_all (\<lambda>output. map_of output ''type'' = Some ''computer_call'') outs)"

datatype route = END | Node string

record cua_state =
  messages :: "message list"
  session_id :: "string option"
  stream_url :: "string option"
  playwright :: "nat option"
  browser :: "nat option"
  current_page :: "nat option"

definition take_action_or_end :: "cua_state \<Rightarrow> route" where
  "take_action_or_end state =
     (if messages state = [] then END
      else
        let last_message = last (messages state) in
        (case additional_kwargs last_message of
           None \<Rightarrow> END
         | Some kw \<Rightarrow>
             if kw = [] then END
             else
               let tool_outputs = map_of kw ''tool_outputs'';
                   calls = tool_calls last_message
               in if \<not> is_computer_tool_call tool_outputs \<and> length calls = 0 then END
                  else Node ''take_browser_action''))"

definition reinvoke_model_or_end :: "cua_state \<Rightarrow> route" where
  "reinvoke_model_or_end state =
     (if messages state \<noteq> [] \<and> mtype (last (messages state)) = ''tool''
      then Node ''call_model'' else END)"

text \<open>
  The pending action requests of an Assistant message, in the words of the
  specification: the \<^verbatim>\<open>computer_call\<close> items among its tool outputs, and its named
  function calls.
\<close>

definition tool_outputs_of :: "message \<Rightarrow> pdict list" where
  "tool_outputs_of m =
     (case additional_kwargs m of
        None \<Rightarrow> []
      | Some kw \<Rightarrow> (case map_of kw ''tool_outputs'' of Some (KwList outs) \<Rightarrow> outs | _ \<Rightarrow> []))"

definition is_computer_call :: "pdict \<Rightarrow> bool" where
  "is_computer_call output = (map_of output ''type'' = Some ''computer_call'')"

definition pending_computer_calls :: "message \<Rightarrow> pdict list" where
  "pending_computer_calls m = filter is_computer_call (tool_outputs_of m)"

definition has_pending_action_request :: "message \<Rightarrow> bool" where
  "has_pending_action_request m = (pending_computer_calls m \<noteq> [] \<or> tool_calls m \<noteq> [])"

section \<open>Effects and external collaborators\<close>

text \<open>
  The nodes of the graph talk to three external services: the session provider, the
  browser driver and the model backend. Each call to one of them is recorded as an
  event. What a service answers is not part of this program: it is read from a record
  of answer functions, each applied to the history of all events so far (the call
  being answered included), so that an answer may depend on everything done before.
  External calls are taken to return; the exceptions a service itself may raise are
  outside the embedding. Output written with \<^verbatim>\<open>print\<close> is not recorded.

  The tools module of the Hyperbrowser package is not among the sources. Its two
  handlers are treated like the services: a call to \<^verbatim>\<open>handle_computer_call\<close> or
  \<^verbatim>\<open>handle_function_tool_call\<close> is an event, and what the second returns is an
  answer. Its tool schema is the field \<open>hb_tools\<close>.
\<close>

record session_detail =
  sd_id :: string
  ws_endpoint :: string
  live_url :: "string option"

datatype event =
    EvSessionsGet string
  | EvSessionsCreate bool nat nat
  | EvPlaywrightStart
  | EvConnectOverCdp string
  | EvSetViewport nat nat nat
  | EvStreamWrite "string option"
  | EvHandleComputerCall nat pdict
  | EvSleep nat
  | EvScreenshot nat
  | EvHandleFunctionToolCall nat tool_call
  | EvInvoke "tool_schema list" "string option" "message list"

record ext =
  env_api_key :: "string option"
  sessions_answer :: "event list \<Rightarrow> session_detail"
  playwright_answer :: "event list \<Rightarrow> nat"
  browser_answer :: "event list \<Rightarrow> nat"
  first_page :: "event list \<Rightarrow> nat \<Rightarrow> nat"
  page_event :: "event list \<Rightarrow> nat option"
  screenshot_answer :: "event list \<Rightarrow> string"
  b64encode :: "string \<Rightarrow> string"
  function_tool_answer :: "event list \<Rightarrow> message option"
  llm_answer :: "event list \<Rightarrow> message"
  hb_tools :: "tool_schema list"

text \<open>
  A computation reads the history and yields a result or an error, together with the
  events it emitted itself. An error ends the computation, as a Python exception
  does; the events emitted before it stay.
\<close>

type_synonym 'a io = "event list \<Rightarrow> (error + 'a) \<times> event list"

definition ret :: "'a \<Rightarrow> 'a io" where
  "ret x = (\<lambda>h. (Inr x, []))"

definition raise :: "error \<Rightarrow> 'a io" where
  "raise e = (\<lambda>h. (Inl e, []))"

definition bind :: "'a io \<Rightarrow> ('a \<Rightarrow> 'b io) \<Rightarrow> 'b io" where
  "bind m f =
     (\<lambda>h. case m h of
            (Inl e, es) \<Rightarrow> (Inl e, es)
          | (Inr x, es) \<Rightarrow> (case f x (h @ es) of (r, es') \<Rightarrow> (r, es @ es')))"

definition lift :: "error + 'a \<Rightarrow> 'a io" where
  "lift r = (\<lambda>h. (r, []))"

definition emit :: "event \<Rightarrow> unit io" where
  "emit e = (\<lambda>h. (Inr (), [e]))"

definition call :: "event \<Rightarrow> (event list \<Rightarrow> 'a) \<Rightarrow> 'a io" where
  "call e answer = (\<lambda>h. (Inr (answer (h @ [e])), [e]))"

definition ask :: "(event list \<Rightarrow> 'a) \<Rightarrow> 'a io" where
  "ask answer = (\<lambda>h. (Inr (answer h), []))"

section \<open>Session manager (hyperbrowser/utils.py)\<close>

definition utils_DEFAULT_DISPLAY_WIDTH :: nat where
  "utils_DEFAULT_DISPLAY_WIDTH = 1024"

definition utils_DEFAULT_DISPLAY_HEIGHT :: nat where
  "utils_DEFAULT_DISPLAY_HEIGHT = 800"

definition api_key_error :: error where
  "api_key_error = ValueError ''Hyperbrowser API key not provided.''"

definition get_hyperbrowser_client :: "string option \<Rightarrow> error + unit" where
  "get_hyperbrowser_client api_key =
     (if \<not> truthy api_key then Inl api_key_error else Inr ())"

definition sessions_get :: "ext \<Rightarrow> string \<Rightarrow> session_detail io" where
  "sessions_get X sid = call (EvSessionsGet sid) (sessions_answer X)"

definition sessions_create :: "ext \<Rightarrow> session_detail io" where
  "sessions_create X =
     call (EvSessionsCreate True utils_DEFAULT_DISPLAY_WIDTH utils_DEFAULT_DISPLAY_HEIGHT)
       (sessions_answer X)"

definition get_or_create :: "ext \<Rightarrow> string option \<Rightarrow> session_detail io" where
  "get_or_create X sid =
     (case sid of
        None \<Rightarrow> sessions_create X
      | Some s \<Rightarrow> if s \<noteq> [] then sessions_get X s else sessions_create X)"

definition init_or_load :: "ext \<Rightarrow> cua_state \<Rightarrow> configuration \<Rightarrow> session_detail io" where
  "init_or_load X inputs config =
     (let sid = session_id inputs;
          hyperbrowser_api_key = cfg_hyperbrowser_api_key config
      in if \<not> truthy hyperbrowser_api_key then raise api_key_error
         else bind (lift (get_hyperbrowser_client hyperbrowser_api_key)) (\<lambda>client.
              get_or_create X sid))"

definition init_or_load_without_config :: "ext \<Rightarrow> cua_state \<Rightarrow> session_detail io" where
  "init_or_load_without_config X inputs =
     (let sid = session_id inputs
      in bind (lift (get_hyperbrowser_client (env_api_key X))) (\<lambda>client.
         get_or_create X sid))"

section \<open>Model invoker\<close>

text \<open>\<^verbatim>\<open>m.response_metadata["id"]\<close>: a missing key raises \<^verbatim>\<open>KeyError\<close>.\<close>

definition metadata_id :: "(string \<times> string option) list \<Rightarrow> error + string option" where
  "metadata_id md = (case map_of md ''id'' of None \<Rightarrow> Inl (KeyError ''id'') | Some v \<Rightarrow> Inr v)"

definition last_is_tool :: "message list \<Rightarrow> bool" where
  "last_is_tool msgs = (msgs \<noteq> [] \<and> mtype (last msgs) = ''tool'')"

text \<open>The token read from \<^verbatim>\<open>messages[-2]\<close>, when the last message is a tool message.\<close>

definition token_of_second_to_last :: "message list \<Rightarrow> error + string option" where
  "token_of_second_to_last msgs =
     (if length msgs \<ge> 2 \<and> mtype (msgs ! (length msgs - 2)) = ''ai'' then
        (case response_metadata (msgs ! (length msgs - 2)) of
           None \<Rightarrow> Inr None
         | Some md \<Rightarrow> metadata_id md)
      else Inr None)"

definition no_token_error :: error where
  "no_token_error = ValueError ''Cannot process tool message without a previous_response_id''"

subsection \<open>nodes/call\_model.py\<close>

definition prompt_to_sys_message :: "prompt option \<Rightarrow> message option" where
  "prompt_to_sys_message p =
     (case p of
        None \<Rightarrow> None
      | Some (PromptStr s) \<Rightarrow>
          Some \<lparr>mtype = ''system'', content = Text s, additional_kwargs = None,
                tool_calls = [], response_metadata = None, tool_call_id = None\<rparr>
      | Some (PromptMsg m) \<Rightarrow> Some m)"

definition previous_response_id :: "configuration \<Rightarrow> message list \<Rightarrow> error + string option" where
  "previous_response_id configuration msgs =
     (if last_is_tool msgs \<and> cfg_zdr_enabled configuration = Some False
      then token_of_second_to_last msgs
      else Inr None)"

definition call_model :: "ext \<Rightarrow> cua_state \<Rightarrow> configuration \<Rightarrow> message io" where
  "call_model X state configuration =
     (let zdr_enabled = cfg_zdr_enabled configuration;
          sys_prompt = prompt_to_sys_message (cfg_prompt configuration);
          msgs = messages state
      in bind (lift (previous_response_id configuration msgs)) (\<lambda>prev.
         bind (lift (get_available_tools configuration)) (\<lambda>tools.
         if last_is_tool msgs \<and> zdr_enabled = Some False then
           (case prev of
              None \<Rightarrow> raise no_token_error
            | Some t \<Rightarrow> call (EvInvoke tools prev [last msgs]) (llm_answer X))
         else
           (case sys_prompt of
              None \<Rightarrow> call (EvInvoke tools prev msgs) (llm_answer X)
            | Some p \<Rightarrow> call (EvInvoke tools prev (p # msgs)) (llm_answer X)))))"

subsection \<open>hyperbrowser/nodes/call\_model.py\<close>

text \<open>
  What a node returns: the keys of the dictionary it hands back to the graph. The
  model invoker appends to the content of \<^verbatim>\<open>messages[0]\<close> in place, which changes the
  message object held by the state; \<open>upd_conversation\<close> is the conversation as the
  node leaves it, \<open>upd_messages\<close> the message returned under the key \<^verbatim>\<open>"messages"\<close>.
\<close>

record update =
  upd_conversation :: "message list"
  upd_messages :: "message option"
  upd_playwright :: "nat option"
  upd_browser :: "nat option"
  upd_session_id :: "string option"
  upd_current_page :: nat
  upd_stream_url :: "string option"

definition hb_previous_response_id :: "message list \<Rightarrow> error + string option" where
  "hb_previous_response_id msgs =
     (if last_is_tool msgs then token_of_second_to_last msgs
      else if msgs \<noteq> [] \<and> mtype (last msgs) = ''ai'' then
        (case response_metadata (last msgs) of
           None \<Rightarrow> Inr None
         | Some md \<Rightarrow> metadata_id md)
      else Inr None)"

text \<open>
  \<^verbatim>\<open>if not playwright or not browser\<close>: start the driver and connect it to the
  session's control endpoint; otherwise both handles of the state are reused.
\<close>

definition connect :: "ext \<Rightarrow> cua_state \<Rightarrow> session_detail io \<Rightarrow> (nat \<times> nat) io" where
  "connect X state acquire =
     (case (playwright state, browser state) of
        (Some pw, Some br) \<Rightarrow> ret (pw, br)
      | _ \<Rightarrow>
          bind acquire (\<lambda>session.
          bind (call EvPlaywrightStart (playwright_answer X)) (\<lambda>pw.
          bind (call (EvConnectOverCdp (ws_endpoint session @ ''&keepAlive=true''))
                  (browser_answer X)) (\<lambda>br.
          ret (pw, br)))))"

definition select_page :: "ext \<Rightarrow> cua_state \<Rightarrow> nat \<Rightarrow> nat io" where
  "select_page X state br =
     (case current_page state of
        Some p \<Rightarrow> ret p
      | None \<Rightarrow> ask (\<lambda>h. first_page X h br))"

definition screenshot_url :: "ext \<Rightarrow> nat \<Rightarrow> string io" where
  "screenshot_url X page =
     bind (call (EvScreenshot page) (screenshot_answer X)) (\<lambda>shot.
     ret (''data:image/png;base64,'' @ b64encode X shot))"

definition append_image :: "message list \<Rightarrow> string \<Rightarrow> error + message list" where
  "append_image msgs url =
     (case msgs of
        [] \<Rightarrow> Inl IndexError
      | m # rest \<Rightarrow>
          (case content m of
             Text s \<Rightarrow> Inl (AttributeError ''append'')
           | Parts ps \<Rightarrow>
               Inr (m\<lparr>content :=
                        Parts (ps @ [[(''type'', ''input_image''), (''image_url'', url),
                                      (''detail'', ''auto'')]])\<rparr> # rest)))"

text \<open>
  The node, in the order of the source: the token (lines 60 to 75), then the session,
  the connection, the page, the viewport and the side channel (lines 95 to 116), then
  the messages to send (lines 119 to 131), the invocation and the returned keys.
\<close>

definition hb_prepare ::
  "ext \<Rightarrow> cua_state \<Rightarrow> (session_detail \<times> nat \<times> nat \<times> nat \<times> string option) io" where
  "hb_prepare X state =
     bind (init_or_load_without_config X state) (\<lambda>session.
     bind (connect X state (ret session)) (\<lambda>(pw, br).
     bind (select_page X state br) (\<lambda>page.
     bind (emit (EvSetViewport page utils_DEFAULT_DISPLAY_WIDTH
                   utils_DEFAULT_DISPLAY_HEIGHT)) (\<lambda>_.
     bind (if \<not> truthy (stream_url state)
           then bind (emit (EvStreamWrite (live_url session))) (\<lambda>_.
                ret (live_url session))
           else ret (stream_url state)) (\<lambda>surl.
     ret (session, pw, br, page, surl))))))"

definition hb_messages_to_send ::
  "ext \<Rightarrow> message list \<Rightarrow> string option \<Rightarrow> nat \<Rightarrow> message list io" where
  "hb_messages_to_send X msgs prev page =
     (if last_is_tool msgs then
        (case prev of
           None \<Rightarrow> raise no_token_error
         | Some t \<Rightarrow> ret [last msgs])
      else
        (case prev of
           None \<Rightarrow> bind (screenshot_url X page) (\<lambda>url. lift (append_image msgs url))
         | Some t \<Rightarrow> ret msgs))"

definition hyperbrowser_call_model :: "ext \<Rightarrow> cua_state \<Rightarrow> update io" where
  "hyperbrowser_call_model X state =
     (let msgs = messages state
      in bind (lift (hb_previous_response_id msgs)) (\<lambda>prev.
         bind (hb_prepare X state) (\<lambda>(session, pw, br, page, surl).
         bind (hb_messages_to_send X msgs prev page) (\<lambda>sent.
         bind (call (EvInvoke (hb_tools X) prev sent) (llm_answer X)) (\<lambda>response.
         ret \<lparr>upd_conversation = (if last_is_tool msgs then msgs else sent),
              upd_messages = Some response,
              upd_playwright = Some pw,
              upd_browser = Some br,
              upd_session_id = Some (sd_id session),
              upd_current_page = page,
              upd_stream_url = surl\<rparr>)))))"

section \<open>Action dispatcher (hyperbrowser/nodes/take\_browser\_action.py)\<close>

text \<open>
  \<^verbatim>\<open>handle_page_event\<close> is registered on the browsing context and rebinds the variable
  \<^verbatim>\<open>page\<close> when the driver reports a new page. Such a report can only arrive while
  the node awaits; \<open>page_event X h\<close> is the page reported, if any, by the time of
  history \<open>h\<close>, and \<open>poll\<close> is the value of the variable after an await.
\<close>

definition poll :: "ext \<Rightarrow> nat \<Rightarrow> nat io" where
  "poll X page = ask (\<lambda>h. case page_event X h of None \<Rightarrow> page | Some p \<Rightarrow> p)"

text \<open>
  The tool message built from a screenshot. \<^verbatim>\<open>ToolMessage\<close> validates its fields
  when it is constructed: \<^verbatim>\<open>tool_call_id\<close> must be a string, so for an item without
  \<^verbatim>\<open>call_id\<close>, where \<^verbatim>\<open>tool_output.get("call_id")\<close> is \<^verbatim>\<open>None\<close>, the constructor
  raises a validation error.
\<close>

definition screenshot_message :: "string \<Rightarrow> string \<Rightarrow> message" where
  "screenshot_message url cid =
     \<lparr>mtype = ''tool'',
      content = Parts [[(''type'', ''input_image''), (''image_url'', url)]],
      additional_kwargs = Some [(''type'', KwStr ''computer_call_output'')],
      tool_calls = [], response_metadata = Some [], tool_call_id = Some cid\<rparr>"

definition tool_call_id_error :: error where
  "tool_call_id_error = ValidationError ''tool_call_id''"

definition computer_call_output :: "string \<Rightarrow> string option \<Rightarrow> error + message" where
  "computer_call_output url cid =
     (case cid of
        None \<Rightarrow> Inl tool_call_id_error
      | Some c \<Rightarrow> Inr (screenshot_message url c))"

text \<open>
  One pass of the body of the first loop for a \<^verbatim>\<open>computer_call\<close> item: the handler,
  the settle delay, the screenshot, and then the tool message built from it, which
  is where the pass fails for an item without call identifier.
\<close>

definition computer_call_step :: "ext \<Rightarrow> pdict \<Rightarrow> nat \<Rightarrow> (nat \<times> message) io" where
  "computer_call_step X tool_output page =
     bind (emit (EvHandleComputerCall page tool_output)) (\<lambda>_.
     bind (poll X page) (\<lambda>page1.
     bind (emit (EvSleep 1)) (\<lambda>_.
     bind (poll X page1) (\<lambda>page2.
     bind (screenshot_url X page2) (\<lambda>url.
     bind (poll X page2) (\<lambda>page3.
     bind (lift (computer_call_output url (map_of tool_output ''call_id''))) (\<lambda>tool_message.
     ret (page3, tool_message))))))))"

fun run_tool_outputs ::
  "ext \<Rightarrow> pdict list \<Rightarrow> nat \<times> message option \<Rightarrow> (nat \<times> message option) io" where
  "run_tool_outputs X [] acc = ret acc"
| "run_tool_outputs X (tool_output # rest) acc =
     (if map_of tool_output ''type'' = Some ''computer_call'' then
        bind (computer_call_step X tool_output (fst acc)) (\<lambda>(page, tm).
        run_tool_outputs X rest (page, Some tm))
      else run_tool_outputs X rest acc)"

text \<open>
  One pass of the body of the second loop. \<^verbatim>\<open>handle_function_tool_call\<close> lives in
  the tools module of the package, which is not among the sources; its return value
  is the answer \<open>function_tool_answer\<close> of the collaborators.
\<close>

definition function_call_step ::
  "ext \<Rightarrow> tool_call \<Rightarrow> nat \<Rightarrow> (nat \<times> message option) io" where
  "function_call_step X tc page =
     bind (call (EvHandleFunctionToolCall page tc) (function_tool_answer X)) (\<lambda>tm.
     bind (poll X page) (\<lambda>page1.
     bind (emit (EvSleep 1)) (\<lambda>_.
     bind (poll X page1) (\<lambda>page2.
     ret (page2, tm)))))"

fun run_tool_calls ::
  "ext \<Rightarrow> tool_call list \<Rightarrow> nat \<times> message option \<Rightarrow> (nat \<times> message option) io" where
  "run_tool_calls X [] acc = ret acc"
| "run_tool_calls X (tc # rest) acc =
     bind (function_call_step X tc (fst acc)) (\<lambda>acc'. run_tool_calls X rest acc')"

text \<open>
  \<^verbatim>\<open>for tool_output in tool_outputs\<close>: a value that is not a list of dictionaries is a
  string here; iterating it yields characters, on which \<^verbatim>\<open>.get\<close> fails.
\<close>

definition iterate_tool_outputs ::
  "ext \<Rightarrow> kwval \<Rightarrow> nat \<times> message option \<Rightarrow> (nat \<times> message option) io" where
  "iterate_tool_outputs X v acc =
     (case v of
        KwList outs \<Rightarrow> run_tool_outputs X outs acc
      | KwStr s \<Rightarrow> if s = [] then ret acc else raise (AttributeError ''get''))"

definition no_action_error :: error where
  "no_action_error =
     ValueError ''Cannot take computer action without a computer call or function call in the last message.''"

text \<open>
  The node, in the order of the source: the checks on the last message (lines 26 to
  33), then the connection, the page, the viewport and the side channel (lines 36 to
  68), then the two loops and the returned keys.
\<close>

definition tba_check :: "cua_state \<Rightarrow> error + kwval \<times> tool_call list" where
  "tba_check state =
     (if messages state = [] then Inl IndexError
      else
        let message = last (messages state) in
        if mtype message \<noteq> ''ai'' then Inl (AssertionError ''Last message must be an AI message'')
        else
          (case additional_kwargs message of
             None \<Rightarrow> Inl (AttributeError ''additional_kwargs'')
           | Some kw \<Rightarrow>
               let tool_outputs = (case map_of kw ''tool_outputs'' of None \<Rightarrow> KwList [] | Some v \<Rightarrow> v);
                   calls = tool_calls message
               in
               if \<not> is_computer_tool_call (Some tool_outputs) \<and> length calls = 0
               then Inl no_action_error
               else Inr (tool_outputs, calls)))"

definition tba_prepare ::
  "ext \<Rightarrow> cua_state \<Rightarrow> configuration \<Rightarrow> (nat \<times> nat \<times> nat \<times> string option) io" where
  "tba_prepare X state config =
     bind (connect X state (init_or_load X state config)) (\<lambda>(pw, br).
     bind (select_page X state br) (\<lambda>page0.
     bind (emit (EvSetViewport page0 utils_DEFAULT_DISPLAY_WIDTH
                   utils_DEFAULT_DISPLAY_HEIGHT)) (\<lambda>_.
     bind (poll X page0) (\<lambda>page1.
     bind (if \<not> truthy (stream_url state)
           then bind (init_or_load X state config) (\<lambda>session.
                bind (poll X page1) (\<lambda>page2.
                bind (emit (EvStreamWrite (live_url session))) (\<lambda>_.
                ret (live_url session, page2))))
           else ret (stream_url state, page1)) (\<lambda>(surl, page3).
     ret (pw, br, page3, surl))))))"

definition take_browser_action :: "ext \<Rightarrow> cua_state \<Rightarrow> configuration \<Rightarrow> update io" where
  "take_browser_action X state config =
     bind (lift (tba_check state)) (\<lambda>(tool_outputs, calls).
     bind (tba_prepare X state config) (\<lambda>(pw, br, page3, surl).
     bind (iterate_tool_outputs X tool_outputs (page3, None)) (\<lambda>acc1.
     bind (run_tool_calls X calls acc1) (\<lambda>(page, tool_message).
     ret \<lparr>upd_conversation = messages state,
          upd_messages = tool_message,
          upd_playwright = Some pw,
          upd_browser = Some br,
          upd_session_id = session_id state,
          upd_current_page = page,
          upd_stream_url = surl\<rparr>))))"

section \<open>The graph (hyperbrowser/graph.py)\<close>

text \<open>
  Modelled from the spec: the state type \<^verbatim>\<open>CUAState\<close> and its reducers are declared in
  the types module, which is not among the sources. Following the specification, the
  conversation is append-only: the message returned by a node, if any, is appended,
  and every other key returned by the node overwrites the field of the state.
\<close>

definition apply_update :: "cua_state \<Rightarrow> update \<Rightarrow> cua_state" where
  "apply_update state u =
     \<lparr>messages = upd_conversation u @ (case upd_messages u of None \<Rightarrow> [] | Some m \<Rightarrow> [m]),
      session_id = upd_session_id u,
      stream_url = upd_stream_url u,
      playwright = upd_playwright u,
      browser = upd_browser u,
      current_page = Some (upd_current_page u)\<rparr>"

text \<open>
  A run of the compiled graph: the model invoker, then the router; on the action
  branch the dispatcher, then the second router. The model decides how long this goes
  on, so the run takes fuel, one unit per cycle; \<open>None\<close> is a run that was cut off.
  The theorems about runs hold for every amount of fuel, hence for every prefix of a
  run, finished or not.
\<close>

fun run_graph :: "nat \<Rightarrow> ext \<Rightarrow> configuration \<Rightarrow> cua_state \<Rightarrow> cua_state option io" where
  "run_graph 0 X config state = ret None"
| "run_graph (Suc n) X config state =
     bind (hyperbrowser_call_model X state) (\<lambda>u1.
       let state1 = apply_update state u1 in
       (case take_action_or_end state1 of
          END \<Rightarrow> ret (Some state1)
        | Node _ \<Rightarrow>
            bind (take_browser_action X state1 config) (\<lambda>u2.
              let state2 = apply_update state1 u2 in
              (case reinvoke_model_or_end state2 of
                 END \<Rightarrow> ret (Some state2)
               | Node _ \<Rightarrow> run_graph n X config state2))))"

section \<open>Notions of the specification\<close>

text \<open>
  A message all of whose tool outputs are computer calls, there being at least one.
\<close>

definition only_computer_calls :: "message \<Rightarrow> bool" where
  "only_computer_calls m =
     (tool_outputs_of m \<noteq> [] \<and> list_all is_computer_call (tool_outputs_of m))"

definition is_invoke :: "event \<Rightarrow> bool" where
  "is_invoke e = (case e of EvInvoke tools prev msgs \<Rightarrow> True | _ \<Rightarrow> False)"

definition invocations :: "event list \<Rightarrow> event list" where
  "invocations es = filter is_invoke es"

text \<open>
  The continuation token carried by a message: the \<^verbatim>\<open>id\<close> of the response metadata
  of an Assistant message, when there is one and it is not \<^verbatim>\<open>None\<close>.
\<close>

definition token_carried :: "message \<Rightarrow> string option" where
  "token_carried m =
     (if mtype m \<noteq> ''ai'' then None
      else (case response_metadata m of
              None \<Rightarrow> None
            | Some md \<Rightarrow> (case map_of md ''id'' of Some (Some t) \<Rightarrow> Some t | _ \<Rightarrow> None)))"

definition second_to_last_token :: "message list \<Rightarrow> string option" where
  "second_to_last_token msgs =
     (if length msgs < 2 then None else token_carried (msgs ! (length msgs - 2)))"

text \<open>Classes of events.\<close>

definition is_stream_write :: "event \<Rightarrow> bool" where
  "is_stream_write e = (case e of EvStreamWrite u \<Rightarrow> True | _ \<Rightarrow> False)"

definition is_create :: "event \<Rightarrow> bool" where
  "is_create e = (case e of EvSessionsCreate c w h \<Rightarrow> True | _ \<Rightarrow> False)"

definition is_handler_call :: "event \<Rightarrow> bool" where
  "is_handler_call e =
     (case e of EvHandleComputerCall p out \<Rightarrow> True
              | EvHandleFunctionToolCall p tc \<Rightarrow> True
              | _ \<Rightarrow> False)"

definition is_screenshot :: "event \<Rightarrow> bool" where
  "is_screenshot e = (case e of EvScreenshot p \<Rightarrow> True | _ \<Rightarrow> False)"

text \<open>The event of acquiring the session for a state: resume a known id, else create.\<close>

definition session_event :: "cua_state \<Rightarrow> event" where
  "session_event state =
     (case session_id state of
        None \<Rightarrow> EvSessionsCreate True 1024 800
      | Some s \<Rightarrow> if s = [] then EvSessionsCreate True 1024 800 else EvSessionsGet s)"

text \<open>
  The events of the preparation common to both nodes, in closed form: the connection
  is made only when the state has no driver handles, and the live-view address is
  written only when the state has no stream address.
\<close>

definition connected :: "cua_state \<Rightarrow> bool" where
  "connected state = (playwright state \<noteq> None \<and> browser state \<noteq> None)"

definition connect_events :: "cua_state \<Rightarrow> session_detail \<Rightarrow> event list" where
  "connect_events state session =
     (if connected state then []
      else [EvPlaywrightStart, EvConnectOverCdp (ws_endpoint session @ ''&keepAlive=true'')])"

definition write_events :: "cua_state \<Rightarrow> session_detail \<Rightarrow> event list" where
  "write_events state session =
     (if truthy (stream_url state) then [] else [EvStreamWrite (live_url session)])"

definition stream_url_after :: "cua_state \<Rightarrow> session_detail \<Rightarrow> string option" where
  "stream_url_after state session =
     (if truthy (stream_url state) then stream_url state else live_url session)"

definition hb_prepare_events :: "cua_state \<Rightarrow> session_detail \<Rightarrow> nat \<Rightarrow> event list" where
  "hb_prepare_events state session page =
     session_event state # connect_events state session @
     [EvSetViewport page 1024 800] @ write_events state session"

text \<open>
  A batch the dispatcher accepts: the latest message is an Assistant message whose
  tool outputs, if any, are a list, and it has function calls or else nothing but
  computer calls. The dispatcher needs the provider when the state lacks a driver
  handle or a stream address, and then the configuration must hold the API key.
\<close>

definition outputs_are_list :: "message \<Rightarrow> bool" where
  "outputs_are_list m =
     (case additional_kwargs m of
        None \<Rightarrow> False
      | Some kw \<Rightarrow> (case map_of kw ''tool_outputs'' of Some (KwStr s) \<Rightarrow> False | _ \<Rightarrow> True))"

definition accepted_batch :: "cua_state \<Rightarrow> bool" where
  "accepted_batch state =
     (messages state \<noteq> [] \<and> mtype (last (messages state)) = ''ai'' \<and>
      outputs_are_list (last (messages state)) \<and>
      (only_computer_calls (last (messages state)) \<or> tool_calls (last (messages state)) \<noteq> []))"

definition can_prepare :: "cua_state \<Rightarrow> configuration \<Rightarrow> bool" where
  "can_prepare state config =
     (truthy (cfg_hyperbrowser_api_key config) \<or> (connected state \<and> truthy (stream_url state)))"

text \<open>
  The events of dispatching: handler calls, settle delays and screenshots. The page
  an event names depends on the page reports of the driver; \<open>forget_page\<close> erases it.
\<close>

definition is_dispatch_event :: "event \<Rightarrow> bool" where
  "is_dispatch_event e =
     (case e of EvHandleComputerCall p out \<Rightarrow> True
              | EvHandleFunctionToolCall p tc \<Rightarrow> True
              | EvSleep n \<Rightarrow> True
              | EvScreenshot p \<Rightarrow> True
              | _ \<Rightarrow> False)"

definition forget_page :: "event \<Rightarrow> event" where
  "forget_page e =
     (case e of EvHandleComputerCall p out \<Rightarrow> EvHandleComputerCall 0 out
              | EvHandleFunctionToolCall p tc \<Rightarrow> EvHandleFunctionToolCall 0 tc
              | EvScreenshot p \<Rightarrow> EvScreenshot 0
              | EvSetViewport p w h \<Rightarrow> EvSetViewport 0 w h
              | _ \<Rightarrow> e)"

text \<open>
  The computer calls that the first loop reaches: every one up to and including the
  first that has no call identifier, where the loop ends with an error.
\<close>

definition has_call_id :: "pdict \<Rightarrow> bool" where
  "has_call_id out = (map_of out ''call_id'' \<noteq> None)"

definition dispatched_computer_calls :: "pdict list \<Rightarrow> pdict list" where
  "dispatched_computer_calls ccs = take (Suc (length (takeWhile has_call_id ccs))) ccs"

definition computer_call_events :: "pdict \<Rightarrow> event list" where
  "computer_call_events out = [EvHandleComputerCall 0 out, EvSleep 1, EvScreenshot 0]"

definition function_call_events :: "tool_call \<Rightarrow> event list" where
  "function_call_events tc = [EvHandleFunctionToolCall 0 tc, EvSleep 1]"

text \<open>The image address built from the screenshot taken at the end of history \<open>h\<close>.\<close>

definition image_url_at :: "ext \<Rightarrow> event list \<Rightarrow> string" where
  "image_url_at X h = ''data:image/png;base64,'' @ b64encode X (screenshot_answer X h)"

text \<open>
  A message and a state without the tool outputs that are no computer calls, to
  compare a batch with the same batch freed from such items.
\<close>

definition drop_unknown_outputs :: "message \<Rightarrow> message" where
  "drop_unknown_outputs m =
     m\<lparr>additional_kwargs :=
         map_option
           (map (\<lambda>(k, v). (k, if k = ''tool_outputs''
                                then (case v of KwList outs \<Rightarrow> KwList (filter is_computer_call outs)
                                              | KwStr s \<Rightarrow> v)
                                else v)))
           (additional_kwargs m)\<rparr>"

definition without_unknown_outputs :: "cua_state \<Rightarrow> cua_state" where
  "without_unknown_outputs state =
     state\<lparr>messages := butlast (messages state) @ [drop_unknown_outputs (last (messages state))]\<rparr>"

text \<open>
  The part of a cycle that follows the model invoker, as a function of the state
  with the reply appended: \<open>run_graph (Suc n)\<close> is the model invoker followed by it.
\<close>

definition after_model :: "nat \<Rightarrow> ext \<Rightarrow> configuration \<Rightarrow> cua_state \<Rightarrow> cua_state option io" where
  "after_model n X config state1 =
     (case take_action_or_end state1 of
        END \<Rightarrow> ret (Some state1)
      | Node _ \<Rightarrow>
          bind (take_browser_action X state1 config) (\<lambda>u2.
            let state2 = apply_update state1 u2 in
            (case reinvoke_model_or_end state2 of
               END \<Rightarrow> ret (Some state2)
             | Node _ \<Rightarrow> run_graph n X config state2)))"


section \<open>Example values\<close>

definition ai_msg :: "(string \<times> kwval) list \<Rightarrow> tool_call list \<Rightarrow> string option \<Rightarrow> message" where
  "ai_msg kw calls rid =
     \<lparr>mtype = ''ai'', content = Text [], additional_kwargs = Some kw, tool_calls = calls,
      response_metadata = Some [(''id'', rid)], tool_call_id = None\<rparr>"

definition human_msg :: "string \<Rightarrow> message" where
  "human_msg s =
     \<lparr>mtype = ''human'', content = Parts [[(''type'', ''input_text''), (''text'', s)]],
      additional_kwargs = Some [], tool_calls = [], response_metadata = Some [],
      tool_call_id = None\<rparr>"

definition tool_msg :: "string \<Rightarrow> message" where
  "tool_msg cid =
     \<lparr>mtype = ''tool'', content = Parts [[(''type'', ''input_image''), (''image_url'', ''data:'')]],
      additional_kwargs = Some [(''type'', KwStr ''computer_call_output'')], tool_calls = [],
      response_metadata = Some [], tool_call_id = Some cid\<rparr>"

definition click_output :: "string \<Rightarrow> pdict" where
  "click_output cid = [(''type'', ''computer_call''), (''call_id'', cid), (''action'', ''click'')]"

definition other_output :: "string \<Rightarrow> pdict" where
  "other_output cid = [(''type'', ''web_search_call''), (''call_id'', cid)]"

definition url_call :: "string \<Rightarrow> tool_call" where
  "url_call cid = \<lparr>tc_name = ''get_current_url'', tc_args = [], tc_id = Some cid\<rparr>"

definition state0 :: "message list \<Rightarrow> cua_state" where
  "state0 ms =
     \<lparr>messages = ms, session_id = None, stream_url = None, playwright = None,
      browser = None, current_page = None\<rparr>"

text \<open>
  Collaborators for the examples: the provider answers a resume with the session asked
  for, the function handler answers with a tool message carrying the identifier of
  the call, and the model asks for one click and is done after that.
\<close>

definition demo_session :: "string \<Rightarrow> string option \<Rightarrow> session_detail" where
  "demo_session sid url = \<lparr>sd_id = sid, ws_endpoint = ''wss://'' @ sid, live_url = url\<rparr>"

definition demo_sessions :: "string option \<Rightarrow> event list \<Rightarrow> session_detail" where
  "demo_sessions url h =
     (case last h of
        EvSessionsGet sid \<Rightarrow> demo_session (if sid = [] then ''s1'' else sid) url
      | _ \<Rightarrow> demo_session ''s1'' url)"

definition demo_function_tool :: "event list \<Rightarrow> message option" where
  "demo_function_tool h =
     (case last h of
        EvHandleFunctionToolCall p tc \<Rightarrow>
          Some \<lparr>mtype = ''tool'', content = Text (''result of '' @ tc_name tc),
                additional_kwargs = Some [], tool_calls = [], response_metadata = Some [],
                tool_call_id = tc_id tc\<rparr>
      | _ \<Rightarrow> None)"

definition demo_llm :: "event list \<Rightarrow> message" where
  "demo_llm h =
     (if length (invocations h) = 1
      then ai_msg [(''tool_outputs'', KwList [click_output ''c1''])] [] (Some ''resp_1'')
      else ai_msg [] [] (Some ''resp_2''))"

definition demo_ext :: "string option \<Rightarrow> ext" where
  "demo_ext url =
     \<lparr>env_api_key = Some ''key'',
      sessions_answer = demo_sessions url,
      playwright_answer = (\<lambda>h. 1),
      browser_answer = (\<lambda>h. 2),
      first_page = (\<lambda>h br. 0),
      page_event = (\<lambda>h. None),
      screenshot_answer = (\<lambda>h. ''png'' @ replicate (length h) CHR ''.''),
      b64encode = (\<lambda>s. s),
      function_tool_answer = demo_function_tool,
      llm_answer = demo_llm,
      hb_tools = []\<rparr>"

definition demo_config :: configuration where
  "demo_config =
     \<lparr>cfg_provider = Some Hyperbrowser, cfg_environment = ''web'', cfg_session_params = None,
      cfg_zdr_enabled = Some False, cfg_prompt = None, cfg_hyperbrowser_api_key = Some ''key''\<rparr>"

definition macos_config :: configuration where
  "macos_config =
     \<lparr>cfg_provider = Some Scrapybara, cfg_environment = ''macos'', cfg_session_params = None,
      cfg_zdr_enabled = Some False, cfg_prompt = None, cfg_hyperbrowser_api_key = None\<rparr>"

definition mixed_state :: cua_state where
  "mixed_state =
     state0 [human_msg ''hi'',
             ai_msg [(''tool_outputs'', KwList [click_output ''c1'', other_output ''w1''])] []
               (Some ''r1'')]"

definition click_state :: cua_state where
  "click_state =
     state0 [human_msg ''hi'',
             ai_msg [(''tool_outputs'', KwList [click_output ''c1''])] [] (Some ''r1'')]"

definition done_state :: cua_state where
  "done_state =
     state0 [human_msg ''hi'', ai_msg [(''reasoning'', KwStr ''none'')] [] (Some ''r1'')]"

definition function_only_state :: cua_state where
  "function_only_state = state0 [human_msg ''hi'', ai_msg [] [url_call ''f1''] (Some ''r1'')]"

definition orphan_tool_state :: cua_state where
  "orphan_tool_state = state0 [human_msg ''hi'', tool_msg ''c1'']"


definition prepared :: "message list \<Rightarrow> cua_state" where
  "prepared ms =
     \<lparr>messages = ms, session_id = Some ''s1'', stream_url = Some ''https://live'',
      playwright = Some 1, browser = Some 2, current_page = Some 0\<rparr>"

definition two_clicks_state :: cua_state where
  "two_clicks_state =
     prepared [human_msg ''hi'',
               ai_msg [(''tool_outputs'', KwList [click_output ''c1'', click_output ''c2''])] []
                 (Some ''r1'')]"

definition click_then_url_state :: cua_state where
  "click_then_url_state =
     prepared [human_msg ''hi'',
               ai_msg [(''tool_outputs'', KwList [click_output ''c1''])]
                 [url_call ''f1'', url_call ''f2''] (Some ''r1'')]"

definition click_without_id :: pdict where
  "click_without_id = [(''type'', ''computer_call''), (''action'', ''click'')]"

definition missing_id_state :: cua_state where
  "missing_id_state =
     prepared [human_msg ''hi'',
               ai_msg [(''tool_outputs'', KwList [click_without_id, click_output ''c2''])]
                 [url_call ''f1''] (Some ''r1'')]"

definition skipped_state :: cua_state where
  "skipped_state =
     prepared [human_msg ''hi'',
               ai_msg [(''tool_outputs'', KwList [other_output ''w1''])] [url_call ''f1'']
                 (Some ''r1'')]"

definition rejected_state :: cua_state where
  "rejected_state =
     prepared [human_msg ''hi'',
               ai_msg [(''tool_outputs'', KwList [other_output ''w1'', click_output ''c1''])] []
                 (Some ''r1'')]"

section \<open>Theorems: tool schema\<close>

text \<open>
  C10. For every environment string other than \<^verbatim>\<open>"web"\<close>, \<^verbatim>\<open>"ubuntu"\<close> and
  \<^verbatim>\<open>"windows"\<close>, \<^verbatim>\<open>get_openai_env_from_state_env\<close> returns \<^verbatim>\<open>None\<close> (no error is raised),
  and the Scrapybara tool schema built from such a configuration is returned normally
  with its environment field \<^verbatim>\<open>None\<close>.
\<close>

theorem unknown_env_returns_none:
  assumes "env \<noteq> ''web''" and "env \<noteq> ''ubuntu''" and "env \<noteq> ''windows''"
    and "cfg_provider c = Some Scrapybara" and "cfg_environment c = env"
  shows "get_openai_env_from_state_env env = None \<and>
         get_available_tools c = Inr [ComputerUsePreview 1024 768 None]"
  using assms
  by (simp add: get_openai_env_from_state_env_def get_available_tools_def
      DEFAULT_DISPLAY_WIDTH_def DEFAULT_DISPLAY_HEIGHT_def)

theorem unknown_env_returns_none_witness:
  "''macos'' \<noteq> ''web'' \<and> ''macos'' \<noteq> ''ubuntu'' \<and> ''macos'' \<noteq> ''windows'' \<and>
   cfg_provider macos_config = Some Scrapybara \<and> cfg_environment macos_config = ''macos'' \<and>
   get_openai_env_from_state_env ''macos'' = None \<and>
   get_available_tools macos_config = Inr [ComputerUsePreview 1024 768 None]"
proof -
  have h: "''macos'' \<noteq> ''web''" "''macos'' \<noteq> ''ubuntu''" "''macos'' \<noteq> ''windows''"
    "cfg_provider macos_config = Some Scrapybara" "cfg_environment macos_config = ''macos''"
    by (simp_all add: macos_config_def)
  from unknown_env_returns_none [OF h] h show ?thesis by simp
qed

section \<open>Theorems: router\<close>

lemma is_computer_tool_call_outputs:
  "additional_kwargs m = Some kw \<Longrightarrow>
   is_computer_tool_call (map_of kw ''tool_outputs'') = only_computer_calls m"
  by (cases "map_of kw ''tool_outputs''"; cases "the (map_of kw ''tool_outputs'')")
     (auto simp: only_computer_calls_def tool_outputs_of_def is_computer_call_def list_all_iff)

lemma only_computer_calls_pending:
  "only_computer_calls m \<Longrightarrow> has_pending_action_request m"
  by (cases "tool_outputs_of m")
     (auto simp: only_computer_calls_def has_pending_action_request_def pending_computer_calls_def)

text \<open>
  C1, as the code has it. The router ends the run on an empty conversation and on a
  latest message without pending action request, and it routes to the action step
  only when the latest message has a pending action request. When the latest message
  has a non-empty \<^verbatim>\<open>additional_kwargs\<close>, it routes to the action step exactly when
  the tool outputs are a non-empty list made of computer calls only, or the message
  has at least one function call.
\<close>

theorem router_decision:
  "(messages state = [] \<longrightarrow> take_action_or_end state = END) \<and>
   (\<not> has_pending_action_request (last (messages state)) \<longrightarrow> take_action_or_end state = END) \<and>
   (take_action_or_end state = Node ''take_browser_action'' \<longrightarrow>
      has_pending_action_request (last (messages state))) \<and>
   (messages state \<noteq> [] \<and> additional_kwargs (last (messages state)) = Some kw \<and> kw \<noteq> [] \<longrightarrow>
      take_action_or_end state =
        (if only_computer_calls (last (messages state)) \<or> tool_calls (last (messages state)) \<noteq> []
         then Node ''take_browser_action'' else END))"
proof -
  let ?m = "last (messages state)"
  have a: "messages state = [] \<Longrightarrow> take_action_or_end state = END"
    by (simp add: take_action_or_end_def)
  have d: "take_action_or_end state =
        (if only_computer_calls ?m \<or> tool_calls ?m \<noteq> [] then Node ''take_browser_action'' else END)"
    if "messages state \<noteq> []" "additional_kwargs ?m = Some kw" "kw \<noteq> []" for kw
    using that is_computer_tool_call_outputs [OF that(2)]
    by (auto simp: take_action_or_end_def Let_def)
  have c: "has_pending_action_request ?m" if "take_action_or_end state = Node ''take_browser_action''"
  proof -
    from that obtain kw where kw: "messages state \<noteq> []" "additional_kwargs ?m = Some kw" "kw \<noteq> []"
      by (auto simp: take_action_or_end_def Let_def split: if_splits option.splits)
    from d [OF kw] that have "only_computer_calls ?m \<or> tool_calls ?m \<noteq> []"
      by (auto split: if_splits)
    then show ?thesis
      using only_computer_calls_pending by (auto simp: has_pending_action_request_def)
  qed
  have e: "take_action_or_end state = END \<or> take_action_or_end state = Node ''take_browser_action''"
    by (auto simp: take_action_or_end_def Let_def split: option.splits)
  have b: "\<not> has_pending_action_request ?m \<Longrightarrow> take_action_or_end state = END"
    using c e by blast
  show ?thesis using a b c d by blast
qed

theorem router_decision_witness:
  "messages click_state \<noteq> [] \<and>
   additional_kwargs (last (messages click_state)) =
     Some [(''tool_outputs'', KwList [click_output ''c1''])] \<and>
   take_action_or_end click_state = Node ''take_browser_action'' \<and>
   has_pending_action_request (last (messages click_state)) \<and>
   \<not> has_pending_action_request (last (messages done_state)) \<and>
   take_action_or_end done_state = END \<and>
   messages (state0 []) = [] \<and> take_action_or_end (state0 []) = END"
proof -
  have k: "messages click_state \<noteq> []"
    "additional_kwargs (last (messages click_state)) =
       Some [(''tool_outputs'', KwList [click_output ''c1''])]"
    "only_computer_calls (last (messages click_state))"
    by (simp_all add: click_state_def state0_def ai_msg_def only_computer_calls_def
        tool_outputs_of_def is_computer_call_def click_output_def)
  have n: "\<not> has_pending_action_request (last (messages done_state))"
    by (simp add: done_state_def state0_def ai_msg_def has_pending_action_request_def
        pending_computer_calls_def tool_outputs_of_def)
  have z: "messages (state0 []) = []" by (simp add: state0_def)
  from router_decision [of click_state "[(''tool_outputs'', KwList [click_output ''c1''])]"]
    router_decision [of done_state "[]"] router_decision [of "state0 []" "[]"] k n z
  show ?thesis by simp
qed

text \<open>
  The claim of C1 as stated fails: an Assistant message whose tool outputs hold a
  computer call next to an item of another type has a pending action request, and the
  router ends the run.
\<close>

theorem router_mixed_outputs_counterexample:
  "mtype (last (messages mixed_state)) = ''ai'' \<and>
   has_pending_action_request (last (messages mixed_state)) \<and>
   take_action_or_end mixed_state = END"
  by (simp add: mixed_state_def state0_def ai_msg_def human_msg_def click_output_def
      other_output_def has_pending_action_request_def pending_computer_calls_def
      tool_outputs_of_def is_computer_call_def take_action_or_end_def)

section \<open>Theorems: model invoker\<close>

lemmas io_defs = bind_def ret_def raise_def lift_def emit_def call_def ask_def


lemma token_None:
  "second_to_last_token msgs = None \<Longrightarrow>
   token_of_second_to_last msgs = Inr None \<or> token_of_second_to_last msgs = Inl (KeyError ''id'')"
  by (auto simp: second_to_last_token_def token_carried_def token_of_second_to_last_def
      metadata_id_def split: if_splits option.splits)

lemma get_or_create_eq:
  "get_or_create X (session_id state) h =
     (Inr (sessions_answer X (h @ [session_event state])), [session_event state])"
  by (auto simp: get_or_create_def sessions_get_def sessions_create_def session_event_def
      call_def utils_DEFAULT_DISPLAY_WIDTH_def utils_DEFAULT_DISPLAY_HEIGHT_def
      split: option.splits)

lemma init_or_load_without_config_eq:
  "init_or_load_without_config X state h =
     (if truthy (env_api_key X)
      then (Inr (sessions_answer X (h @ [session_event state])), [session_event state])
      else (Inl api_key_error, []))"
  by (simp add: init_or_load_without_config_def get_hyperbrowser_client_def bind_def lift_def
      get_or_create_eq)

lemma init_or_load_eq:
  "init_or_load X state config h =
     (if truthy (cfg_hyperbrowser_api_key config)
      then (Inr (sessions_answer X (h @ [session_event state])), [session_event state])
      else (Inl api_key_error, []))"
  by (simp add: init_or_load_def get_hyperbrowser_client_def bind_def lift_def raise_def
      get_or_create_eq)

lemma hb_prepare_eq:
  assumes "truthy (env_api_key X)"
  shows "\<exists>pw br page.
     hb_prepare X state h =
       (Inr (sessions_answer X (h @ [session_event state]), pw, br, page,
             stream_url_after state (sessions_answer X (h @ [session_event state]))),
        hb_prepare_events state (sessions_answer X (h @ [session_event state])) page)"
  using assms
  by (cases "playwright state"; cases "browser state"; cases "current_page state")
     (simp_all add: hb_prepare_def init_or_load_without_config_eq connect_def select_page_def
      io_defs connect_events_def connected_def write_events_def stream_url_after_def
      hb_prepare_events_def utils_DEFAULT_DISPLAY_WIDTH_def utils_DEFAULT_DISPLAY_HEIGHT_def)

lemma hb_prepare_no_key:
  "\<not> truthy (env_api_key X) \<Longrightarrow> hb_prepare X state h = (Inl api_key_error, [])"
  by (simp add: hb_prepare_def init_or_load_without_config_eq bind_def)

lemma hb_fail_token:
  "hb_previous_response_id (messages state) = Inl e \<Longrightarrow>
   hyperbrowser_call_model X state h = (Inl e, [])"
  by (simp add: hyperbrowser_call_model_def bind_def lift_def)

lemma hb_no_key:
  "hb_previous_response_id (messages state) = Inr prev \<Longrightarrow> \<not> truthy (env_api_key X) \<Longrightarrow>
   hyperbrowser_call_model X state h = (Inl api_key_error, [])"
  by (simp add: hyperbrowser_call_model_def bind_def lift_def hb_prepare_no_key)

lemma hb_tool_none:
  assumes "truthy (env_api_key X)" "last_is_tool (messages state)"
    "hb_previous_response_id (messages state) = Inr None"
  shows "\<exists>page. hyperbrowser_call_model X state h =
     (Inl no_token_error,
      hb_prepare_events state (sessions_answer X (h @ [session_event state])) page)"
proof -
  from hb_prepare_eq [OF assms(1), of state h] obtain pw br page where
    "hb_prepare X state h =
       (Inr (sessions_answer X (h @ [session_event state]), pw, br, page,
             stream_url_after state (sessions_answer X (h @ [session_event state]))),
        hb_prepare_events state (sessions_answer X (h @ [session_event state])) page)"
    by blast
  with assms(2,3) show ?thesis
    by (auto simp: hyperbrowser_call_model_def hb_messages_to_send_def io_defs Let_def)
qed

lemma hb_sends:
  assumes "truthy (env_api_key X)"
    "hb_previous_response_id (messages state) = Inr (Some t)"
  shows "\<exists>pw br page.
     hyperbrowser_call_model X state h =
       (let session = sessions_answer X (h @ [session_event state]);
            sent = (if last_is_tool (messages state) then [last (messages state)]
                    else messages state);
            es = hb_prepare_events state session page @ [EvInvoke (hb_tools X) (Some t) sent]
        in (Inr \<lparr>upd_conversation = messages state,
                 upd_messages = Some (llm_answer X (h @ es)),
                 upd_playwright = Some pw, upd_browser = Some br,
                 upd_session_id = Some (sd_id session), upd_current_page = page,
                 upd_stream_url = stream_url_after state session\<rparr>, es))"
proof -
  from hb_prepare_eq [OF assms(1), of state h] obtain pw br page where
    "hb_prepare X state h =
       (Inr (sessions_answer X (h @ [session_event state]), pw, br, page,
             stream_url_after state (sessions_answer X (h @ [session_event state]))),
        hb_prepare_events state (sessions_answer X (h @ [session_event state])) page)"
    by blast
  with assms(2) have "hyperbrowser_call_model X state h =
       (let session = sessions_answer X (h @ [session_event state]);
            sent = (if last_is_tool (messages state) then [last (messages state)]
                    else messages state);
            es = hb_prepare_events state session page @ [EvInvoke (hb_tools X) (Some t) sent]
        in (Inr \<lparr>upd_conversation = messages state,
                 upd_messages = Some (llm_answer X (h @ es)),
                 upd_playwright = Some pw, upd_browser = Some br,
                 upd_session_id = Some (sd_id session), upd_current_page = page,
                 upd_stream_url = stream_url_after state session\<rparr>, es))"
    by (simp add: hyperbrowser_call_model_def hb_messages_to_send_def io_defs Let_def)
  then show ?thesis by blast
qed

lemma hb_first_turn:
  assumes "truthy (env_api_key X)" "\<not> last_is_tool (messages state)"
    "hb_previous_response_id (messages state) = Inr None"
  shows "\<exists>pw br page.
     hyperbrowser_call_model X state h =
       (let session = sessions_answer X (h @ [session_event state]);
            pre = hb_prepare_events state session page @ [EvScreenshot page];
            url = ''data:image/png;base64,'' @ b64encode X (screenshot_answer X (h @ pre))
        in case append_image (messages state) url of
             Inl e \<Rightarrow> (Inl e, pre)
           | Inr sent \<Rightarrow>
               (Inr \<lparr>upd_conversation = sent,
                     upd_messages =
                       Some (llm_answer X (h @ pre @ [EvInvoke (hb_tools X) None sent])),
                     upd_playwright = Some pw, upd_browser = Some br,
                     upd_session_id = Some (sd_id session), upd_current_page = page,
                     upd_stream_url = stream_url_after state session\<rparr>,
                pre @ [EvInvoke (hb_tools X) None sent]))"
proof -
  from hb_prepare_eq [OF assms(1), of state h] obtain pw br page where
    "hb_prepare X state h =
       (Inr (sessions_answer X (h @ [session_event state]), pw, br, page,
             stream_url_after state (sessions_answer X (h @ [session_event state]))),
        hb_prepare_events state (sessions_answer X (h @ [session_event state])) page)"
    by blast
  with assms(2,3) have "hyperbrowser_call_model X state h =
       (let session = sessions_answer X (h @ [session_event state]);
            pre = hb_prepare_events state session page @ [EvScreenshot page];
            url = ''data:image/png;base64,'' @ b64encode X (screenshot_answer X (h @ pre))
        in case append_image (messages state) url of
             Inl e \<Rightarrow> (Inl e, pre)
           | Inr sent \<Rightarrow>
               (Inr \<lparr>upd_conversation = sent,
                     upd_messages =
                       Some (llm_answer X (h @ pre @ [EvInvoke (hb_tools X) None sent])),
                     upd_playwright = Some pw, upd_browser = Some br,
                     upd_session_id = Some (sd_id session), upd_current_page = page,
                     upd_stream_url = stream_url_after state session\<rparr>,
                pre @ [EvInvoke (hb_tools X) None sent]))"
    by (simp add: hyperbrowser_call_model_def hb_messages_to_send_def screenshot_url_def
        io_defs Let_def split: sum.splits)
  then show ?thesis by blast
qed


lemma invocations_prepare [simp]:
  "invocations (hb_prepare_events state session page) = []"
  by (auto simp: invocations_def hb_prepare_events_def is_invoke_def session_event_def
      connect_events_def write_events_def split: option.splits)

lemma invocations_Nil [simp]: "invocations [] = []"
  by (simp add: invocations_def)

lemma invocations_append [simp]: "invocations (xs @ ys) = invocations xs @ invocations ys"
  by (simp add: invocations_def)

lemma invocations_Invoke [simp]: "invocations [EvInvoke tools prev msgs] = [EvInvoke tools prev msgs]"
  by (simp add: invocations_def is_invoke_def)


lemma call_model_fatal:
  assumes "last_is_tool (messages state)" "cfg_zdr_enabled config = Some False"
    "second_to_last_token (messages state) = None"
  shows "(\<exists>e. fst (call_model X state config h) = Inl e) \<and> snd (call_model X state config h) = []"
  using assms token_None [OF assms(3)]
  by (cases "get_available_tools config")
     (auto simp: call_model_def previous_response_id_def io_defs Let_def)

lemma hb_fatal:
  assumes "last_is_tool (messages state)" "second_to_last_token (messages state) = None"
  shows "(\<exists>e. fst (hyperbrowser_call_model X state h) = Inl e) \<and>
         invocations (snd (hyperbrowser_call_model X state h)) = []"
proof -
  from token_None [OF assms(2)] assms(1)
  consider "hb_previous_response_id (messages state) = Inl (KeyError ''id'')"
    | "hb_previous_response_id (messages state) = Inr None"
    by (auto simp: hb_previous_response_id_def)
  then show ?thesis
  proof cases
    case 1
    then show ?thesis by (simp add: hb_fail_token)
  next
    case 2
    show ?thesis
    proof (cases "truthy (env_api_key X)")
      case True
      from hb_tool_none [OF True assms(1) 2, of h] show ?thesis by auto
    next
      case False
      with 2 show ?thesis by (simp add: hb_no_key)
    qed
  qed
qed

text \<open>
  C3. When the latest message is a tool message and the second-to-latest message
  carries no continuation token (there is no such message, it is not an Assistant
  message, or its response metadata has no identifier), the model invoker ends with an
  error and invokes the model not at all: in the configured variant whenever
  continuity is enabled (\<^verbatim>\<open>zdr_enabled is False\<close>), in the Hyperbrowser variant, which
  has no such switch, always. Nothing catches the error or repeats the call.
\<close>

theorem tool_message_without_token_is_fatal:
  assumes "last_is_tool (messages state)" and "second_to_last_token (messages state) = None"
  shows "(cfg_zdr_enabled config = Some False \<longrightarrow>
            (\<exists>e. fst (call_model X state config h) = Inl e) \<and>
            invocations (snd (call_model X state config h)) = []) \<and>
         (\<exists>e. fst (hyperbrowser_call_model X state h) = Inl e) \<and>
         invocations (snd (hyperbrowser_call_model X state h)) = []"
  using call_model_fatal [OF assms(1) _ assms(2)] hb_fatal [OF assms] by simp



theorem tool_message_without_token_is_fatal_witness:
  "last_is_tool (messages orphan_tool_state) \<and>
   second_to_last_token (messages orphan_tool_state) = None \<and>
   cfg_zdr_enabled demo_config = Some False \<and>
   (\<exists>e. fst (call_model (demo_ext None) orphan_tool_state demo_config []) = Inl e) \<and>
   invocations (snd (call_model (demo_ext None) orphan_tool_state demo_config [])) = [] \<and>
   (\<exists>e. fst (hyperbrowser_call_model (demo_ext None) orphan_tool_state []) = Inl e) \<and>
   invocations (snd (hyperbrowser_call_model (demo_ext None) orphan_tool_state [])) = []"
proof -
  have h: "last_is_tool (messages orphan_tool_state)"
    "second_to_last_token (messages orphan_tool_state) = None"
    by (simp_all add: orphan_tool_state_def state0_def last_is_tool_def tool_msg_def
        human_msg_def second_to_last_token_def token_carried_def)
  have z: "cfg_zdr_enabled demo_config = Some False" by (simp add: demo_config_def)
  from tool_message_without_token_is_fatal [OF h, of demo_config "demo_ext None" "[]"] h z
  show ?thesis by simp
qed



text \<open>
  The second way in which the router differs from C1: a message with a function call
  and an empty \<^verbatim>\<open>additional_kwargs\<close> ends the run, although the dispatcher would
  accept it.
\<close>

lemma router_function_only_ends:
  "has_pending_action_request (last (messages function_only_state)) \<and>
   take_action_or_end function_only_state = END \<and>
   (\<exists>r. tba_check function_only_state = Inr r)"
  by (simp add: function_only_state_def state0_def ai_msg_def url_call_def
      has_pending_action_request_def take_action_or_end_def tba_check_def)

section \<open>Theorems: action dispatcher\<close>

lemma bind_Inr:
  "m h = (Inr x, es) \<Longrightarrow> bind m f h = (fst (f x (h @ es)), es @ snd (f x (h @ es)))"
  by (simp add: bind_def split: prod.splits)

lemma forget_page_simps [simp]:
  "forget_page (EvHandleComputerCall p out) = EvHandleComputerCall 0 out"
  "forget_page (EvHandleFunctionToolCall p tc) = EvHandleFunctionToolCall 0 tc"
  "forget_page (EvScreenshot p) = EvScreenshot 0"
  "forget_page (EvSleep n) = EvSleep n"
  by (simp_all add: forget_page_def)

lemma bind_Inl: "m h = (Inl e, es) \<Longrightarrow> bind m f h = (Inl e, es)"
  by (simp add: bind_def)

lemma computer_call_step_eq:
  "map_of out ''call_id'' = Some cid \<Longrightarrow>
   \<exists>p2 p3. computer_call_step X out p h =
     (Inr (p3, screenshot_message
                 (image_url_at X (h @ [EvHandleComputerCall p out, EvSleep 1, EvScreenshot p2]))
                 cid),
      [EvHandleComputerCall p out, EvSleep 1, EvScreenshot p2])"
  by (simp add: computer_call_step_def computer_call_output_def poll_def screenshot_url_def
      io_defs image_url_at_def)

lemma computer_call_step_no_id:
  "map_of out ''call_id'' = None \<Longrightarrow>
   \<exists>p2. computer_call_step X out p h =
     (Inl tool_call_id_error, [EvHandleComputerCall p out, EvSleep 1, EvScreenshot p2])"
  by (simp add: computer_call_step_def computer_call_output_def poll_def screenshot_url_def
      io_defs)

lemma dispatched_Nil [simp]: "dispatched_computer_calls [] = []"
  by (simp add: dispatched_computer_calls_def)

lemma dispatched_Cons [simp]:
  "dispatched_computer_calls (out # rest) =
     out # (if has_call_id out then dispatched_computer_calls rest else [])"
  by (simp add: dispatched_computer_calls_def)

lemma dispatched_all:
  "list_all has_call_id ccs \<Longrightarrow> dispatched_computer_calls ccs = ccs"
  by (induction ccs) simp_all

lemma function_call_step_eq:
  "\<exists>p2. function_call_step X tc p h =
     (Inr (p2, function_tool_answer X (h @ [EvHandleFunctionToolCall p tc])),
      [EvHandleFunctionToolCall p tc, EvSleep 1])"
  by (simp add: function_call_step_def poll_def io_defs)


lemma run_tool_calls_Nil: "run_tool_calls X [] acc h = (Inr acc, [])"
  by (simp add: ret_def)

lemma run_tool_outputs_skip:
  "run_tool_outputs X outs acc = run_tool_outputs X (filter is_computer_call outs) acc"
  by (induction outs arbitrary: acc) (simp_all add: is_computer_call_def)

lemma run_tool_outputs_none:
  "filter is_computer_call outs = [] \<Longrightarrow> run_tool_outputs X outs acc h = (Inr acc, [])"
  by (simp add: run_tool_outputs_skip [of X outs] ret_def)


lemma is_invoke_simps [simp]:
  "is_invoke (EvSessionsGet sid) = False" "is_invoke (EvSessionsCreate c w ht) = False"
  "is_invoke EvPlaywrightStart = False" "is_invoke (EvConnectOverCdp u) = False"
  "is_invoke (EvSetViewport p w ht) = False" "is_invoke (EvStreamWrite su) = False"
  "is_invoke (EvHandleComputerCall p out) = False" "is_invoke (EvSleep n) = False"
  "is_invoke (EvScreenshot p) = False" "is_invoke (EvHandleFunctionToolCall p tc) = False"
  "is_invoke (EvInvoke tools prev msgs) = True"
  by (simp_all add: is_invoke_def)

lemma is_stream_write_simps [simp]:
  "is_stream_write (EvSessionsGet sid) = False" "is_stream_write (EvSessionsCreate c w ht) = False"
  "is_stream_write EvPlaywrightStart = False" "is_stream_write (EvConnectOverCdp u) = False"
  "is_stream_write (EvSetViewport p w ht) = False" "is_stream_write (EvStreamWrite su) = True"
  "is_stream_write (EvHandleComputerCall p out) = False" "is_stream_write (EvSleep n) = False"
  "is_stream_write (EvScreenshot p) = False"
  "is_stream_write (EvHandleFunctionToolCall p tc) = False"
  "is_stream_write (EvInvoke tools prev msgs) = False"
  by (simp_all add: is_stream_write_def)

lemma is_create_simps [simp]:
  "is_create (EvSessionsGet sid) = False" "is_create (EvSessionsCreate c w ht) = True"
  "is_create EvPlaywrightStart = False" "is_create (EvConnectOverCdp u) = False"
  "is_create (EvSetViewport p w ht) = False" "is_create (EvStreamWrite su) = False"
  "is_create (EvHandleComputerCall p out) = False" "is_create (EvSleep n) = False"
  "is_create (EvScreenshot p) = False" "is_create (EvHandleFunctionToolCall p tc) = False"
  "is_create (EvInvoke tools prev msgs) = False"
  by (simp_all add: is_create_def)

lemma is_dispatch_event_simps [simp]:
  "is_dispatch_event (EvSessionsGet sid) = False"
  "is_dispatch_event (EvSessionsCreate c w ht) = False"
  "is_dispatch_event EvPlaywrightStart = False" "is_dispatch_event (EvConnectOverCdp u) = False"
  "is_dispatch_event (EvSetViewport p w ht) = False" "is_dispatch_event (EvStreamWrite su) = False"
  "is_dispatch_event (EvHandleComputerCall p out) = True" "is_dispatch_event (EvSleep n) = True"
  "is_dispatch_event (EvScreenshot p) = True"
  "is_dispatch_event (EvHandleFunctionToolCall p tc) = True"
  "is_dispatch_event (EvInvoke tools prev msgs) = False"
  by (simp_all add: is_dispatch_event_def)

lemma is_handler_call_simps [simp]:
  "is_handler_call (EvSessionsGet sid) = False" "is_handler_call (EvSessionsCreate c w ht) = False"
  "is_handler_call EvPlaywrightStart = False" "is_handler_call (EvConnectOverCdp u) = False"
  "is_handler_call (EvSetViewport p w ht) = False" "is_handler_call (EvStreamWrite su) = False"
  "is_handler_call (EvHandleComputerCall p out) = True" "is_handler_call (EvSleep n) = False"
  "is_handler_call (EvScreenshot p) = False"
  "is_handler_call (EvHandleFunctionToolCall p tc) = True"
  "is_handler_call (EvInvoke tools prev msgs) = False"
  by (simp_all add: is_handler_call_def)

lemma session_event_cases:
  "session_event state = EvSessionsCreate True 1024 800 \<and> \<not> truthy (session_id state) \<or>
   (\<exists>s. session_event state = EvSessionsGet s \<and> session_id state = Some s \<and> s \<noteq> [])"
  by (cases "session_id state") (auto simp: session_event_def)

lemma is_create_session_event [simp]:
  "is_create (session_event state) = (\<not> truthy (session_id state))"
  using session_event_cases [of state] by auto

lemma session_event_classes [simp]:
  "is_dispatch_event (session_event state) = False" "is_invoke (session_event state) = False"
  "is_stream_write (session_event state) = False" "is_handler_call (session_event state) = False"
  using session_event_cases [of state] by auto

lemma tba_prepare_ok:
  assumes "can_prepare state config"
  shows "\<exists>pw br page surl es.
     tba_prepare X state config h = (Inr (pw, br, page, surl), es) \<and>
     filter is_dispatch_event es = [] \<and> invocations es = [] \<and>
     filter is_stream_write es = (if truthy (stream_url state) then [] else [EvStreamWrite surl]) \<and>
     (truthy (stream_url state) \<longrightarrow> surl = stream_url state) \<and>
     (\<not> truthy (stream_url state) \<longrightarrow> (\<exists>h'. surl = live_url (sessions_answer X h'))) \<and>
     (truthy (session_id state) \<longrightarrow> filter is_create es = [])"
  using assms
  by (cases "playwright state"; cases "browser state"; cases "current_page state";
      cases "truthy (stream_url state)")
     (auto simp: tba_prepare_def can_prepare_def connected_def connect_def select_page_def
      poll_def init_or_load_eq io_defs invocations_def)

lemma tba_prepare_fail:
  assumes "\<not> can_prepare state config"
  shows "\<exists>es. tba_prepare X state config h = (Inl api_key_error, es) \<and>
     filter is_dispatch_event es = [] \<and> invocations es = [] \<and>
     filter is_stream_write es = [] \<and> filter is_create es = []"
  using assms
  by (cases "playwright state"; cases "browser state"; cases "current_page state";
      cases "truthy (stream_url state)")
     (auto simp: tba_prepare_def can_prepare_def connected_def connect_def select_page_def
      poll_def init_or_load_eq io_defs invocations_def)

lemma tba_check_accepted:
  assumes "accepted_batch state"
  shows "tba_check state =
           Inr (KwList (tool_outputs_of (last (messages state))), tool_calls (last (messages state)))"
proof -
  let ?m = "last (messages state)"
  from assms obtain kw where kw: "additional_kwargs ?m = Some kw"
    by (auto simp: accepted_batch_def outputs_are_list_def split: option.splits)
  from assms kw have v: "(case map_of kw ''tool_outputs'' of None \<Rightarrow> KwList [] | Some v \<Rightarrow> v) =
      KwList (tool_outputs_of ?m)"
    by (auto simp: accepted_batch_def outputs_are_list_def tool_outputs_of_def
        split: option.splits kwval.splits)
  have "is_computer_tool_call (Some (KwList (tool_outputs_of ?m))) = only_computer_calls ?m"
    by (simp add: only_computer_calls_def is_computer_call_def [abs_def])
  with assms kw v show ?thesis
    by (auto simp: tba_check_def accepted_batch_def Let_def)
qed

lemma tba_rejected:
  "tba_check state = Inl e \<Longrightarrow> take_browser_action X state config h = (Inl e, [])"
  by (simp add: take_browser_action_def bind_def lift_def)

lemma tba_decompose:
  assumes "tba_check state = Inr (KwList outs, calls)"
    and "tba_prepare X state config h = (Inr (pw, br, page3, surl), es0)"
    and "run_tool_outputs X outs (page3, None) (h @ es0) = (Inr acc1, es1)"
    and "run_tool_calls X calls acc1 (h @ es0 @ es1) = (Inr (page, tm), es2)"
  shows "take_browser_action X state config h =
     (Inr \<lparr>upd_conversation = messages state, upd_messages = tm, upd_playwright = Some pw,
            upd_browser = Some br, upd_session_id = session_id state, upd_current_page = page,
            upd_stream_url = surl\<rparr>, es0 @ es1 @ es2)"
  using assms
  by (simp add: take_browser_action_def iterate_tool_outputs_def bind_def lift_def ret_def)

lemma tba_no_prepare:
  assumes "tba_check state = Inr r" "tba_prepare X state config h = (Inl e, es)"
  shows "take_browser_action X state config h = (Inl e, es)"
  using assms by (cases r) (simp add: take_browser_action_def bind_def lift_def)

lemma run_tool_calls_events:
  "\<exists>acc'. run_tool_calls X calls acc h = (Inr acc', snd (run_tool_calls X calls acc h)) \<and>
     map forget_page (snd (run_tool_calls X calls acc h)) = concat (map function_call_events calls)"
proof (induction calls arbitrary: acc h)
  case Nil
  then show ?case by (simp add: ret_def)
next
  case (Cons tc rest)
  obtain p2 where step: "function_call_step X tc (fst acc) h =
     (Inr (p2, function_tool_answer X (h @ [EvHandleFunctionToolCall (fst acc) tc])),
      [EvHandleFunctionToolCall (fst acc) tc, EvSleep 1])"
    using function_call_step_eq by blast
  let ?es = "[EvHandleFunctionToolCall (fst acc) tc, EvSleep 1]"
  let ?acc = "(p2, function_tool_answer X (h @ [EvHandleFunctionToolCall (fst acc) tc]))"
  from Cons.IH [of ?acc "h @ ?es"] obtain acc' where
    ih: "run_tool_calls X rest ?acc (h @ ?es) = (Inr acc', snd (run_tool_calls X rest ?acc (h @ ?es)))"
    and ev: "map forget_page (snd (run_tool_calls X rest ?acc (h @ ?es))) =
       concat (map function_call_events rest)"
    by blast
  from step have eq: "run_tool_calls X (tc # rest) acc h =
     (fst (run_tool_calls X rest ?acc (h @ ?es)), ?es @ snd (run_tool_calls X rest ?acc (h @ ?es)))"
    by (simp add: bind_Inr)
  from ih have "fst (run_tool_calls X rest ?acc (h @ ?es)) = Inr acc'"
    by (metis fst_conv)
  moreover have "map forget_page ?es = function_call_events tc"
    by (simp add: function_call_events_def)
  ultimately show ?case using eq ev by simp
qed

lemma run_tool_outputs_events:
  "(list_all has_call_id (filter is_computer_call outs) \<longrightarrow>
      (\<exists>acc'. fst (run_tool_outputs X outs acc h) = Inr acc')) \<and>
   (\<not> list_all has_call_id (filter is_computer_call outs) \<longrightarrow>
      fst (run_tool_outputs X outs acc h) = Inl tool_call_id_error) \<and>
   map forget_page (snd (run_tool_outputs X outs acc h)) =
     concat (map computer_call_events
               (dispatched_computer_calls (filter is_computer_call outs)))"
proof (induction outs arbitrary: acc h)
  case Nil
  then show ?case by (simp add: ret_def)
next
  case (Cons out rest)
  show ?case
  proof (cases "map_of out ''type'' = Some ''computer_call''")
    case False
    with Cons.IH [of acc h] show ?thesis by (simp add: is_computer_call_def)
  next
    case True
    then have cc: "is_computer_call out" by (simp add: is_computer_call_def)
    show ?thesis
    proof (cases "map_of out ''call_id''")
      case None
      from computer_call_step_no_id [OF None] obtain p2 where
        step: "computer_call_step X out (fst acc) h =
          (Inl tool_call_id_error,
           [EvHandleComputerCall (fst acc) out, EvSleep 1, EvScreenshot p2])"
        by blast
      with True have "run_tool_outputs X (out # rest) acc h =
          (Inl tool_call_id_error,
           [EvHandleComputerCall (fst acc) out, EvSleep 1, EvScreenshot p2])"
        by (simp add: bind_Inl)
      with cc None show ?thesis
        by (simp add: has_call_id_def computer_call_events_def)
    next
      case (Some c)
      obtain p2 p3 where step: "computer_call_step X out (fst acc) h =
         (Inr (p3, screenshot_message
                     (image_url_at X (h @ [EvHandleComputerCall (fst acc) out, EvSleep 1, EvScreenshot p2]))
                     c),
          [EvHandleComputerCall (fst acc) out, EvSleep 1, EvScreenshot p2])"
        using computer_call_step_eq [OF Some] by blast
      let ?es = "[EvHandleComputerCall (fst acc) out, EvSleep 1, EvScreenshot p2]"
      let ?acc = "(p3, Some (screenshot_message (image_url_at X (h @ ?es)) c))"
      note ih = Cons.IH [of ?acc "h @ ?es"]
      from step True have eq: "run_tool_outputs X (out # rest) acc h =
         (fst (run_tool_outputs X rest ?acc (h @ ?es)),
          ?es @ snd (run_tool_outputs X rest ?acc (h @ ?es)))"
        by (simp add: bind_Inr)
      have ev: "map forget_page ?es = computer_call_events out"
        by (simp add: computer_call_events_def)
      from Some have id: "has_call_id out" by (simp add: has_call_id_def)
      from ih eq ev cc id show ?thesis by simp
    qed
  qed
qed

lemma tba_outputs_fail:
  assumes "tba_check state = Inr (KwList outs, calls)"
    and "tba_prepare X state config h = (Inr (pw, br, page3, surl), es0)"
    and "run_tool_outputs X outs (page3, None) (h @ es0) = (Inl e, es1)"
  shows "take_browser_action X state config h = (Inl e, es0 @ es1)"
  using assms
  by (simp add: take_browser_action_def iterate_tool_outputs_def bind_def lift_def)

lemma is_dispatch_forget [simp]: "is_dispatch_event (forget_page e) = is_dispatch_event e"
  by (cases e) (simp_all add: forget_page_def)

lemma dispatch_events_only:
  assumes "map forget_page es = concat (map f xs)" and "\<And>x. list_all is_dispatch_event (f x)"
  shows "filter is_dispatch_event es = es"
proof -
  have "list_all is_dispatch_event (concat (map f xs))"
    using assms(2) by (auto simp: list_all_iff)
  with assms(1) have "list_all is_dispatch_event (map forget_page es)" by simp
  then have "list_all is_dispatch_event es" by (simp add: list_all_iff)
  then show ?thesis by (simp add: list_all_iff)
qed


text \<open>
  C5. For a batch the dispatcher accepts, the dispatch events of the node are, in this
  order and with nothing between them: for each computer call that the first loop
  reaches, in the order of the tool outputs, its handler call, the settle delay and
  the screenshot; then, when every computer call has a call identifier, for each
  function call, in the order of the message, its handler call and the settle
  delay. The computer calls come before the function calls, the two being separate
  lists of the message. When every computer call has a call identifier, the loop
  reaches all of them and the node returns normally. Otherwise the node ends with
  the validation error at the first computer call without one, after the screenshot
  of that call, and no later action is begun.
\<close>

theorem dispatch_order:
  assumes "accepted_batch state" and "can_prepare state config"
  shows
    "map forget_page (filter is_dispatch_event (snd (take_browser_action X state config h))) =
       concat (map computer_call_events
                 (dispatched_computer_calls (pending_computer_calls (last (messages state))))) @
       (if list_all has_call_id (pending_computer_calls (last (messages state)))
        then concat (map function_call_events (tool_calls (last (messages state))))
        else []) \<and>
     (list_all has_call_id (pending_computer_calls (last (messages state))) \<longrightarrow>
        dispatched_computer_calls (pending_computer_calls (last (messages state))) =
          pending_computer_calls (last (messages state)) \<and>
        (\<exists>u. fst (take_browser_action X state config h) = Inr u)) \<and>
     (\<not> list_all has_call_id (pending_computer_calls (last (messages state))) \<longrightarrow>
        fst (take_browser_action X state config h) = Inl tool_call_id_error)"
proof -
  let ?m = "last (messages state)"
  let ?outs = "tool_outputs_of ?m"
  let ?calls = "tool_calls ?m"
  let ?ccs = "pending_computer_calls ?m"
  have ccs: "filter is_computer_call ?outs = ?ccs"
    by (simp add: pending_computer_calls_def)
  note chk = tba_check_accepted [OF assms(1)]
  from tba_prepare_ok [OF assms(2), of X h] obtain pw br page3 surl es0 where
    prep: "tba_prepare X state config h = (Inr (pw, br, page3, surl), es0)"
    and es0: "filter is_dispatch_event es0 = []"
    by blast
  obtain r1 es1 where outs: "run_tool_outputs X ?outs (page3, None) (h @ es0) = (r1, es1)"
    by (cases "run_tool_outputs X ?outs (page3, None) (h @ es0)")
  from run_tool_outputs_events [where outs = ?outs and X = X and acc = "(page3, None)"
      and h = "h @ es0"] outs
  have ok: "list_all has_call_id ?ccs \<longrightarrow> (\<exists>acc'. r1 = Inr acc')"
    and bad: "\<not> list_all has_call_id ?ccs \<longrightarrow> r1 = Inl tool_call_id_error"
    and es1: "map forget_page es1 =
      concat (map computer_call_events (dispatched_computer_calls ?ccs))"
    by (simp_all add: ccs)
  have d1: "filter is_dispatch_event es1 = es1"
    by (rule dispatch_events_only [OF es1]) (simp add: computer_call_events_def)
  show ?thesis
  proof (cases "list_all has_call_id ?ccs")
    case True
    with ok obtain acc1 where r1: "r1 = Inr acc1" by blast
    from run_tool_calls_events [of X ?calls acc1 "h @ es0 @ es1"] obtain acc2 es2 where
      calls: "run_tool_calls X ?calls acc1 (h @ es0 @ es1) = (Inr acc2, es2)"
      and es2: "map forget_page es2 = concat (map function_call_events ?calls)"
      by metis
    obtain page tm where acc2: "acc2 = (page, tm)" by (cases acc2)
    note res = tba_decompose [OF chk prep outs [unfolded r1] calls [unfolded acc2]]
    have d2: "filter is_dispatch_event es2 = es2"
      by (rule dispatch_events_only [OF es2]) (simp add: function_call_events_def)
    from res es0 d1 d2 es1 es2 True dispatched_all [OF True] show ?thesis
      by simp
  next
    case False
    with bad have r1: "r1 = Inl tool_call_id_error" by blast
    note res = tba_outputs_fail [OF chk prep outs [unfolded r1]]
    from res es0 d1 es1 False show ?thesis
      by simp
  qed
qed


lemma example_call_ids:
  "has_call_id (click_output cid)" "\<not> has_call_id click_without_id"
  by (simp_all add: has_call_id_def click_output_def click_without_id_def)

lemma example_batches:
  "accepted_batch click_then_url_state" "can_prepare click_then_url_state demo_config"
  "accepted_batch two_clicks_state" "can_prepare two_clicks_state demo_config"
  "accepted_batch missing_id_state" "can_prepare missing_id_state demo_config"
  by (simp_all add: accepted_batch_def can_prepare_def demo_config_def click_then_url_state_def
      two_clicks_state_def missing_id_state_def prepared_def ai_msg_def url_call_def
      outputs_are_list_def only_computer_calls_def tool_outputs_of_def is_computer_call_def
      click_output_def)

lemma example_pending:
  "pending_computer_calls (last (messages click_then_url_state)) = [click_output ''c1'']"
  "tool_calls (last (messages click_then_url_state)) = [url_call ''f1'', url_call ''f2'']"
  "pending_computer_calls (last (messages two_clicks_state)) =
     [click_output ''c1'', click_output ''c2'']"
  "tool_calls (last (messages two_clicks_state)) = []"
  "last (tool_outputs_of (last (messages two_clicks_state))) = click_output ''c2''"
  "pending_computer_calls (last (messages missing_id_state)) =
     [click_without_id, click_output ''c2'']"
  "tool_calls (last (messages missing_id_state)) = [url_call ''f1'']"
  by (simp_all add: click_then_url_state_def two_clicks_state_def missing_id_state_def
      prepared_def ai_msg_def pending_computer_calls_def tool_outputs_of_def
      is_computer_call_def click_output_def click_without_id_def)

theorem dispatch_order_witness:
  "accepted_batch click_then_url_state \<and> can_prepare click_then_url_state demo_config \<and>
   (\<exists>u. fst (take_browser_action (demo_ext None) click_then_url_state demo_config []) = Inr u) \<and>
   map forget_page (filter is_dispatch_event
     (snd (take_browser_action (demo_ext None) click_then_url_state demo_config []))) =
     [EvHandleComputerCall 0 (click_output ''c1''), EvSleep 1, EvScreenshot 0,
      EvHandleFunctionToolCall 0 (url_call ''f1''), EvSleep 1,
      EvHandleFunctionToolCall 0 (url_call ''f2''), EvSleep 1] \<and>
   accepted_batch missing_id_state \<and> can_prepare missing_id_state demo_config \<and>
   fst (take_browser_action (demo_ext None) missing_id_state demo_config []) =
     Inl tool_call_id_error \<and>
   map forget_page (filter is_dispatch_event
     (snd (take_browser_action (demo_ext None) missing_id_state demo_config []))) =
     [EvHandleComputerCall 0 click_without_id, EvSleep 1, EvScreenshot 0]"
proof -
  from dispatch_order [OF example_batches(1,2), of "demo_ext None" "[]"]
    dispatch_order [OF example_batches(5,6), of "demo_ext None" "[]"]
    example_batches
  show ?thesis
    by (simp add: example_pending example_call_ids computer_call_events_def
        function_call_events_def)
qed


lemma map_of_map_key:
  "map_of (map (\<lambda>(k, v). (k, f k v)) kw) k = map_option (f k) (map_of kw k)"
  by (induction kw) auto

lemma tool_outputs_of_drop:
  "tool_outputs_of (drop_unknown_outputs m) = filter is_computer_call (tool_outputs_of m)"
  by (cases "additional_kwargs m")
     (auto simp: tool_outputs_of_def drop_unknown_outputs_def map_of_map_key
      split: option.splits kwval.splits)

lemma outputs_are_list_drop:
  "outputs_are_list (drop_unknown_outputs m) = outputs_are_list m"
  by (cases "additional_kwargs m")
     (auto simp: outputs_are_list_def drop_unknown_outputs_def map_of_map_key
      split: option.splits kwval.splits)

lemma init_or_load_messages:
  "init_or_load X (state\<lparr>messages := ms\<rparr>) config = init_or_load X state config"
  by (simp add: init_or_load_def)

lemma tba_prepare_messages:
  "tba_prepare X (state\<lparr>messages := ms\<rparr>) config = tba_prepare X state config"
  by (simp add: tba_prepare_def connect_def select_page_def init_or_load_messages cong: if_cong)


lemma tba_check_unknown_only:
  assumes "messages state \<noteq> []" "mtype (last (messages state)) = ''ai''"
    "outputs_are_list (last (messages state))" "tool_calls (last (messages state)) = []"
    "\<exists>out \<in> set (tool_outputs_of (last (messages state))). \<not> is_computer_call out"
  shows "tba_check state = Inl no_action_error"
proof -
  let ?m = "last (messages state)"
  from assms(3) obtain kw where kw: "additional_kwargs ?m = Some kw"
    by (auto simp: outputs_are_list_def split: option.splits)
  from assms(3) kw have v: "(case map_of kw ''tool_outputs'' of None \<Rightarrow> KwList [] | Some v \<Rightarrow> v) =
      KwList (tool_outputs_of ?m)"
    by (auto simp: outputs_are_list_def tool_outputs_of_def split: option.splits kwval.splits)
  from assms(5) have "\<not> is_computer_tool_call (Some (KwList (tool_outputs_of ?m)))"
    by (auto simp: list_all_iff is_computer_call_def)
  with assms(1,2,4) kw v show ?thesis
    by (simp add: tba_check_def Let_def)
qed

lemma without_unknown_last:
  "messages (without_unknown_outputs state) \<noteq> []"
  "last (messages (without_unknown_outputs state)) = drop_unknown_outputs (last (messages state))"
  by (simp_all add: without_unknown_outputs_def)

lemma drop_unknown_fields [simp]:
  "mtype (drop_unknown_outputs m) = mtype m" "tool_calls (drop_unknown_outputs m) = tool_calls m"
  by (simp_all add: drop_unknown_outputs_def)

text \<open>
  C9, as the code has it, for tool outputs whose type is not \<^verbatim>\<open>computer_call\<close>. When
  the message has no function call, the dispatcher rejects the whole batch with an
  error before any action. When the message has a function call, such an item is
  passed over: the node emits the same events and returns the same keys as for the
  message without the item, so no result of its own is produced for it.
\<close>

theorem unknown_outputs_are_skipped:
  assumes "messages state \<noteq> []" and "mtype (last (messages state)) = ''ai''"
    and "outputs_are_list (last (messages state))"
  shows
    "(tool_calls (last (messages state)) = [] \<and>
      (\<exists>out \<in> set (tool_outputs_of (last (messages state))). \<not> is_computer_call out) \<longrightarrow>
        take_browser_action X state config h = (Inl no_action_error, [])) \<and>
     (tool_calls (last (messages state)) \<noteq> [] \<longrightarrow>
        tool_outputs_of (last (messages (without_unknown_outputs state))) =
          filter is_computer_call (tool_outputs_of (last (messages state))) \<and>
        snd (take_browser_action X state config h) =
          snd (take_browser_action X (without_unknown_outputs state) config h) \<and>
        map_sum id (\<lambda>u. u\<lparr>upd_conversation := []\<rparr>) (fst (take_browser_action X state config h)) =
          map_sum id (\<lambda>u. u\<lparr>upd_conversation := []\<rparr>)
            (fst (take_browser_action X (without_unknown_outputs state) config h)))"
proof -
  let ?m = "last (messages state)"
  let ?state' = "without_unknown_outputs state"
  have a: "take_browser_action X state config h = (Inl no_action_error, [])"
    if "tool_calls ?m = []" "\<exists>out \<in> set (tool_outputs_of ?m). \<not> is_computer_call out"
    using tba_check_unknown_only [OF assms that] by (rule tba_rejected)
  have b: "tool_outputs_of (last (messages ?state')) = filter is_computer_call (tool_outputs_of ?m) \<and>
        snd (take_browser_action X state config h) = snd (take_browser_action X ?state' config h) \<and>
        map_sum id (\<lambda>u. u\<lparr>upd_conversation := []\<rparr>) (fst (take_browser_action X state config h)) =
          map_sum id (\<lambda>u. u\<lparr>upd_conversation := []\<rparr>) (fst (take_browser_action X ?state' config h))"
    if calls: "tool_calls ?m \<noteq> []"
  proof -
    from assms calls have acc: "accepted_batch state"
      by (simp add: accepted_batch_def)
    from assms calls have acc': "accepted_batch ?state'"
      by (simp add: accepted_batch_def without_unknown_last outputs_are_list_drop)
    have outs': "tool_outputs_of (last (messages ?state')) = filter is_computer_call (tool_outputs_of ?m)"
      by (simp add: without_unknown_last tool_outputs_of_drop)
    have chk: "tba_check state = Inr (KwList (tool_outputs_of ?m), tool_calls ?m)"
      using tba_check_accepted [OF acc] .
    have chk': "tba_check ?state' =
        Inr (KwList (filter is_computer_call (tool_outputs_of ?m)), tool_calls ?m)"
      using tba_check_accepted [OF acc'] by (simp add: without_unknown_last tool_outputs_of_drop)
    have prep: "tba_prepare X ?state' config = tba_prepare X state config"
      by (simp add: without_unknown_outputs_def tba_prepare_messages)
    have sid: "session_id ?state' = session_id state"
      by (simp add: without_unknown_outputs_def)
    have skip: "run_tool_outputs X (filter is_computer_call (tool_outputs_of ?m)) =
        run_tool_outputs X (tool_outputs_of ?m)"
      by (rule ext) (rule run_tool_outputs_skip [symmetric])
    show ?thesis
      by (auto simp: outs' take_browser_action_def chk chk' prep sid skip
          iterate_tool_outputs_def bind_def lift_def ret_def split: prod.splits sum.splits)
  qed
  from a b show ?thesis by blast
qed

text \<open>
  The claim of C9 as stated fails for an item of unknown type: with a function call
  in the message the item leaves no trace, the only result being that of the
  function call; without one the whole batch is rejected and its computer call is
  not executed.
\<close>

theorem unknown_output_counterexample:
  "\<not> is_computer_call (other_output ''w1'') \<and>
   snd (take_browser_action (demo_ext None) skipped_state demo_config []) =
     [EvSetViewport 0 1024 800, EvHandleFunctionToolCall 0 (url_call ''f1''), EvSleep 1] \<and>
   map_sum id (\<lambda>u. map_option tool_call_id (upd_messages u))
     (fst (take_browser_action (demo_ext None) skipped_state demo_config [])) =
     Inr (Some (Some ''f1'')) \<and>
   take_browser_action (demo_ext None) rejected_state demo_config [] = (Inl no_action_error, [])"
  by (simp add: is_computer_call_def other_output_def skipped_state_def rejected_state_def
      prepared_def ai_msg_def human_msg_def url_call_def click_output_def
      take_browser_action_def tba_check_def tba_prepare_def connect_def select_page_def
      poll_def iterate_tool_outputs_def function_call_step_def io_defs demo_ext_def
      demo_function_tool_def utils_DEFAULT_DISPLAY_WIDTH_def utils_DEFAULT_DISPLAY_HEIGHT_def)

theorem unknown_outputs_are_skipped_witness:
  "messages skipped_state \<noteq> [] \<and> mtype (last (messages skipped_state)) = ''ai'' \<and>
   outputs_are_list (last (messages skipped_state)) \<and>
   tool_calls (last (messages skipped_state)) \<noteq> [] \<and>
   tool_outputs_of (last (messages (without_unknown_outputs skipped_state))) = [] \<and>
   snd (take_browser_action (demo_ext None) skipped_state demo_config []) =
     snd (take_browser_action (demo_ext None) (without_unknown_outputs skipped_state)
            demo_config []) \<and>
   messages rejected_state \<noteq> [] \<and> mtype (last (messages rejected_state)) = ''ai'' \<and>
   outputs_are_list (last (messages rejected_state)) \<and>
   tool_calls (last (messages rejected_state)) = [] \<and>
   (\<exists>out \<in> set (tool_outputs_of (last (messages rejected_state))). \<not> is_computer_call out) \<and>
   take_browser_action (demo_ext None) rejected_state demo_config [] = (Inl no_action_error, [])"
proof -
  have s: "messages skipped_state \<noteq> []" "mtype (last (messages skipped_state)) = ''ai''"
    "outputs_are_list (last (messages skipped_state))"
    by (simp_all add: skipped_state_def prepared_def ai_msg_def outputs_are_list_def)
  have s': "tool_calls (last (messages skipped_state)) \<noteq> []"
    "filter is_computer_call (tool_outputs_of (last (messages skipped_state))) = []"
    by (simp_all add: skipped_state_def prepared_def ai_msg_def tool_outputs_of_def
        is_computer_call_def other_output_def)
  have r: "messages rejected_state \<noteq> []" "mtype (last (messages rejected_state)) = ''ai''"
    "outputs_are_list (last (messages rejected_state))"
    by (simp_all add: rejected_state_def prepared_def ai_msg_def outputs_are_list_def)
  have r': "tool_calls (last (messages rejected_state)) = []"
    "\<exists>out \<in> set (tool_outputs_of (last (messages rejected_state))). \<not> is_computer_call out"
    by (simp_all add: rejected_state_def prepared_def ai_msg_def tool_outputs_of_def
        is_computer_call_def other_output_def)
  from unknown_outputs_are_skipped [OF s, of "demo_ext None" demo_config "[]"]
    unknown_outputs_are_skipped [OF r, of "demo_ext None" demo_config "[]"] s s' r r'
  show ?thesis by simp
qed

section \<open>Theorems: runs of the graph\<close>

lemma dispatch_not_other:
  "is_dispatch_event e \<Longrightarrow> \<not> is_create e \<and> \<not> is_stream_write e \<and> \<not> is_invoke e"
  by (cases e) simp_all

lemma dispatch_only_filters:
  assumes "list_all is_dispatch_event es"
  shows "filter is_create es = []" "filter is_stream_write es = []" "invocations es = []"
  using assms dispatch_not_other by (auto simp: list_all_iff filter_empty_conv invocations_def)

lemma run_tool_outputs_dispatch:
  "\<exists>r es. run_tool_outputs X outs acc h = (r, es) \<and> list_all is_dispatch_event es"
proof -
  have m: "map forget_page (snd (run_tool_outputs X outs acc h)) =
       concat (map computer_call_events
                 (dispatched_computer_calls (filter is_computer_call outs)))"
    using run_tool_outputs_events by blast
  have "filter is_dispatch_event (snd (run_tool_outputs X outs acc h)) =
      snd (run_tool_outputs X outs acc h)"
    by (rule dispatch_events_only [OF m]) (simp add: computer_call_events_def)
  then have "list_all is_dispatch_event (snd (run_tool_outputs X outs acc h))"
    by (metis (mono_tags, lifting) filter_id_conv list_all_iff)
  then show ?thesis
    by (cases "run_tool_outputs X outs acc h") simp
qed

lemma run_tool_calls_dispatch:
  "\<exists>acc' es. run_tool_calls X calls acc h = (Inr acc', es) \<and> list_all is_dispatch_event es"
proof -
  from run_tool_calls_events [of X calls acc h] obtain acc' where
    r: "run_tool_calls X calls acc h = (Inr acc', snd (run_tool_calls X calls acc h))"
    and m: "map forget_page (snd (run_tool_calls X calls acc h)) =
       concat (map function_call_events calls)"
    by blast
  have "filter is_dispatch_event (snd (run_tool_calls X calls acc h)) =
      snd (run_tool_calls X calls acc h)"
    by (rule dispatch_events_only [OF m]) (simp add: function_call_events_def)
  then have "list_all is_dispatch_event (snd (run_tool_calls X calls acc h))"
    by (metis (mono_tags, lifting) filter_id_conv list_all_iff)
  with r show ?thesis by blast
qed

lemma iterate_dispatch:
  "\<exists>r es. iterate_tool_outputs X v acc h = (r, es) \<and> list_all is_dispatch_event es"
proof (cases v)
  case (KwStr s)
  then show ?thesis by (simp add: iterate_tool_outputs_def ret_def raise_def)
next
  case (KwList outs)
  with run_tool_outputs_dispatch [of X outs acc h] show ?thesis
    by (auto simp: iterate_tool_outputs_def)
qed

text \<open>What every outcome of the dispatcher has in common.\<close>

lemma tba_summary:
  "\<exists>es0 es1.
     snd (take_browser_action X state config h) = es0 @ es1 \<and>
     list_all is_dispatch_event es1 \<and> filter is_dispatch_event es0 = [] \<and> invocations es0 = [] \<and>
     (truthy (session_id state) \<longrightarrow> filter is_create es0 = []) \<and>
     (truthy (stream_url state) \<longrightarrow> filter is_stream_write es0 = []) \<and>
     (\<forall>u. fst (take_browser_action X state config h) = Inr u \<longrightarrow>
        upd_conversation u = messages state \<and> upd_session_id u = session_id state \<and>
        (truthy (stream_url state) \<longrightarrow> upd_stream_url u = stream_url state))"
proof (cases "tba_check state")
  case (Inl e)
  from tba_rejected [OF this, of X config h] show ?thesis by simp
next
  case (Inr r)
  obtain v calls where r: "r = (v, calls)" by (cases r)
  show ?thesis
  proof (cases "can_prepare state config")
    case False
    from tba_prepare_fail [OF this, of X h] obtain es0 where
      p: "tba_prepare X state config h = (Inl api_key_error, es0)"
      and f: "filter is_dispatch_event es0 = []" "invocations es0 = []"
        "filter is_stream_write es0 = []" "filter is_create es0 = []"
      by blast
    from tba_no_prepare [OF Inr p] have "take_browser_action X state config h = (Inl api_key_error, es0)" .
    with f show ?thesis
      by (intro exI [of _ es0] exI [of _ "[]"]) simp
  next
    case True
    from tba_prepare_ok [OF this, of X h] obtain pw br page3 surl es0 where
      p: "tba_prepare X state config h = (Inr (pw, br, page3, surl), es0)"
      and f: "filter is_dispatch_event es0 = []" "invocations es0 = []"
        "truthy (stream_url state) \<longrightarrow> surl = stream_url state"
        "truthy (session_id state) \<longrightarrow> filter is_create es0 = []"
        "filter is_stream_write es0 = (if truthy (stream_url state) then [] else [EvStreamWrite surl])"
      by blast
    obtain r1 es1 where i: "iterate_tool_outputs X v (page3, None) (h @ es0) = (r1, es1)"
      and d1: "list_all is_dispatch_event es1"
      using iterate_dispatch by blast
    show ?thesis
    proof (cases r1)
      case (Inl e)
      with Inr r p i have "take_browser_action X state config h = (Inl e, es0 @ es1)"
        by (simp add: take_browser_action_def bind_def lift_def)
      with f d1 show ?thesis
        by (intro exI [of _ es0] exI [of _ es1]) simp
    next
      case (Inr acc1)
      obtain acc2 es2 where c: "run_tool_calls X calls acc1 (h @ es0 @ es1) = (Inr acc2, es2)"
        and d2: "list_all is_dispatch_event es2"
        using run_tool_calls_dispatch by blast
      obtain page tm where acc2: "acc2 = (page, tm)" by (cases acc2)
      from \<open>tba_check state = Inr r\<close> r p i Inr c acc2
      have "take_browser_action X state config h =
         (Inr \<lparr>upd_conversation = messages state, upd_messages = tm, upd_playwright = Some pw,
                upd_browser = Some br, upd_session_id = session_id state, upd_current_page = page,
                upd_stream_url = surl\<rparr>, es0 @ es1 @ es2)"
        by (simp add: take_browser_action_def bind_def lift_def ret_def)
      with f d1 d2 show ?thesis
        by (intro exI [of _ es0] exI [of _ "es1 @ es2"]) simp
    qed
  qed
qed


lemma prepare_events_filters [simp]:
  "filter is_create (hb_prepare_events state session page) =
     (if truthy (session_id state) then [] else [session_event state])"
  "filter is_stream_write (hb_prepare_events state session page) = write_events state session"
  "filter is_handler_call (hb_prepare_events state session page) = []"
  "filter is_screenshot (hb_prepare_events state session page) = []"
  using session_event_cases [of state]
  by (auto simp: hb_prepare_events_def connect_events_def write_events_def is_screenshot_def)

text \<open>What every outcome of the Hyperbrowser model invoker has in common.\<close>

lemma hb_summary:
  "\<exists>es0 shot inv.
     snd (hyperbrowser_call_model X state h) = es0 @ shot @ inv \<and>
     (es0 = [] \<or>
      (\<exists>page. es0 = hb_prepare_events state (sessions_answer X (h @ [session_event state])) page)) \<and>
     (shot = [] \<or> (\<exists>page. shot = [EvScreenshot page])) \<and>
     (inv = [] \<or> (\<exists>prev sent. inv = [EvInvoke (hb_tools X) prev sent] \<and>
        (last_is_tool (messages state) \<longrightarrow> prev \<noteq> None \<and> sent = [last (messages state)]))) \<and>
     (last_is_tool (messages state) \<longrightarrow> shot = []) \<and>
     (\<forall>u. fst (hyperbrowser_call_model X state h) = Inr u \<longrightarrow>
        es0 \<noteq> [] \<and> inv \<noteq> [] \<and>
        upd_session_id u = Some (sd_id (sessions_answer X (h @ [session_event state]))) \<and>
        upd_stream_url u =
          stream_url_after state (sessions_answer X (h @ [session_event state])))"
proof (cases "hb_previous_response_id (messages state)")
  case (Inl e)
  from hb_fail_token [OF this, of X h] show ?thesis by simp
next
  case (Inr prev)
  let ?session = "sessions_answer X (h @ [session_event state])"
  have ne: "hb_prepare_events state ?session page \<noteq> []" for page
    by (simp add: hb_prepare_events_def)
  show ?thesis
  proof (cases "truthy (env_api_key X)")
    case False
    from hb_no_key [OF Inr False, of h] show ?thesis by simp
  next
    case True
    show ?thesis
    proof (cases prev)
      case (Some t)
      from hb_sends [OF True Inr [unfolded Some], of h] obtain pw br page where
        "hyperbrowser_call_model X state h =
         (let session = ?session;
              sent = (if last_is_tool (messages state) then [last (messages state)]
                      else messages state);
              es = hb_prepare_events state session page @ [EvInvoke (hb_tools X) (Some t) sent]
          in (Inr \<lparr>upd_conversation = messages state,
                   upd_messages = Some (llm_answer X (h @ es)),
                   upd_playwright = Some pw, upd_browser = Some br,
                   upd_session_id = Some (sd_id session), upd_current_page = page,
                   upd_stream_url = stream_url_after state session\<rparr>, es))"
        by blast
      then show ?thesis
        by (intro exI [of _ "hb_prepare_events state ?session page"] exI [of _ "[]"]
            exI [of _ "[EvInvoke (hb_tools X) (Some t)
               (if last_is_tool (messages state) then [last (messages state)] else messages state)]"])
           (auto simp: Let_def ne)
    next
      case None
      show ?thesis
      proof (cases "last_is_tool (messages state)")
        case lt: True
        from hb_tool_none [OF True lt Inr [unfolded None], of h] obtain page where
          "hyperbrowser_call_model X state h = (Inl no_token_error, hb_prepare_events state ?session page)"
          by blast
        then show ?thesis
          by (intro exI [of _ "hb_prepare_events state ?session page"] exI [of _ "[]"]
              exI [of _ "[]"]) auto
      next
        case lt: False
        from hb_first_turn [OF True lt Inr [unfolded None], of h] obtain pw br page where
          eq: "hyperbrowser_call_model X state h =
           (let session = ?session;
                pre = hb_prepare_events state session page @ [EvScreenshot page];
                url = ''data:image/png;base64,'' @ b64encode X (screenshot_answer X (h @ pre))
            in case append_image (messages state) url of
                 Inl e \<Rightarrow> (Inl e, pre)
               | Inr sent \<Rightarrow>
                   (Inr \<lparr>upd_conversation = sent,
                         upd_messages =
                           Some (llm_answer X (h @ pre @ [EvInvoke (hb_tools X) None sent])),
                         upd_playwright = Some pw, upd_browser = Some br,
                         upd_session_id = Some (sd_id session), upd_current_page = page,
                         upd_stream_url = stream_url_after state session\<rparr>,
                    pre @ [EvInvoke (hb_tools X) None sent]))"
          by blast
        let ?pre = "hb_prepare_events state ?session page @ [EvScreenshot page]"
        let ?url = "''data:image/png;base64,'' @ b64encode X (screenshot_answer X (h @ ?pre))"
        show ?thesis
        proof (cases "append_image (messages state) ?url")
          case (Inl e)
          with eq have "hyperbrowser_call_model X state h = (Inl e, ?pre)"
            by (simp add: Let_def)
          then show ?thesis using lt
            by (intro exI [of _ "hb_prepare_events state ?session page"]
                exI [of _ "[EvScreenshot page]"] exI [of _ "[]"]) auto
        next
          case (Inr sent)
          with eq have "hyperbrowser_call_model X state h =
            (Inr \<lparr>upd_conversation = sent,
                         upd_messages =
                           Some (llm_answer X (h @ ?pre @ [EvInvoke (hb_tools X) None sent])),
                         upd_playwright = Some pw, upd_browser = Some br,
                         upd_session_id = Some (sd_id ?session), upd_current_page = page,
                         upd_stream_url = stream_url_after state ?session\<rparr>,
                    ?pre @ [EvInvoke (hb_tools X) None sent])"
            by (simp add: Let_def)
          then show ?thesis using lt
            by (intro exI [of _ "hb_prepare_events state ?session page"]
                exI [of _ "[EvScreenshot page]"] exI [of _ "[EvInvoke (hb_tools X) None sent]"])
               (auto simp: ne)
        qed
      qed
    qed
  qed
qed


lemma snd_bind:
  "snd (bind m k h) =
     (case m h of (Inl e, es) \<Rightarrow> es | (Inr x, es) \<Rightarrow> es @ snd (k x (h @ es)))"
  by (simp add: bind_def split: prod.splits sum.splits)

lemma run_graph_Suc:
  "run_graph (Suc n) X config state =
     bind (hyperbrowser_call_model X state) (\<lambda>u1. after_model n X config (apply_update state u1))"
  by (simp add: after_model_def Let_def)

text \<open>
  Events of a class \<open>f\<close> that no step emits from a state satisfying an invariant:
  \<open>I\<close> holds where the model invoker starts, \<open>J\<close> where the dispatcher starts.
\<close>

lemma after_model_silent:
  assumes tba: "\<And>state h. J state \<Longrightarrow>
      filter f (snd (take_browser_action X state config h)) = [] \<and>
      (\<forall>u. fst (take_browser_action X state config h) = Inr u \<longrightarrow>
           reinvoke_model_or_end (apply_update state u) \<noteq> END \<longrightarrow> I (apply_update state u))"
    and run: "\<And>state h. I state \<Longrightarrow> filter f (snd (run_graph n X config state h)) = []"
    and J: "J state1"
  shows "filter f (snd (after_model n X config state1 h)) = []"
proof (cases "take_action_or_end state1")
  case END
  then show ?thesis by (simp add: after_model_def ret_def)
next
  case (Node s)
  obtain r es where t: "take_browser_action X state1 config h = (r, es)"
    by (cases "take_browser_action X state1 config h")
  from tba [OF J, of h] t have es: "filter f es = []"
    and inv: "\<And>u. r = Inr u \<Longrightarrow> reinvoke_model_or_end (apply_update state1 u) \<noteq> END \<Longrightarrow>
        I (apply_update state1 u)"
    by auto
  show ?thesis
  proof (cases r)
    case (Inl e)
    with Node t es show ?thesis by (simp add: after_model_def snd_bind)
  next
    case (Inr u)
    show ?thesis
    proof (cases "reinvoke_model_or_end (apply_update state1 u)")
      case END
      with Node t es Inr show ?thesis by (simp add: after_model_def snd_bind Let_def ret_def)
    next
      case (Node s')
      with inv [OF Inr] have "I (apply_update state1 u)" by simp
      from run [OF this, of "h @ es"] \<open>take_action_or_end state1 = Node s\<close> t es Inr Node
      show ?thesis by (simp add: after_model_def snd_bind Let_def)
    qed
  qed
qed

lemma run_graph_silent:
  assumes hb: "\<And>state h. I state \<Longrightarrow>
      filter f (snd (hyperbrowser_call_model X state h)) = [] \<and>
      (\<forall>u. fst (hyperbrowser_call_model X state h) = Inr u \<longrightarrow> J (apply_update state u))"
    and tba: "\<And>state h. J state \<Longrightarrow>
      filter f (snd (take_browser_action X state config h)) = [] \<and>
      (\<forall>u. fst (take_browser_action X state config h) = Inr u \<longrightarrow>
           reinvoke_model_or_end (apply_update state u) \<noteq> END \<longrightarrow> I (apply_update state u))"
  shows "I state \<Longrightarrow> filter f (snd (run_graph n X config state h)) = []"
proof (induction n arbitrary: state h)
  case 0
  then show ?case by (simp add: ret_def)
next
  case (Suc n)
  obtain r es where m: "hyperbrowser_call_model X state h = (r, es)"
    by (cases "hyperbrowser_call_model X state h")
  from hb [OF Suc.prems, of h] m have es: "filter f es = []"
    and J: "\<And>u. r = Inr u \<Longrightarrow> J (apply_update state u)"
    by auto
  show ?case
  proof (cases r)
    case (Inl e)
    with m es show ?thesis by (simp add: run_graph_Suc snd_bind del: run_graph.simps)
  next
    case (Inr u)
    have "filter f (snd (after_model n X config (apply_update state u) (h @ es))) = []"
      by (rule after_model_silent [where I = I and J = J, OF tba Suc.IH J [OF Inr]])
    with m es Inr show ?thesis by (simp add: run_graph_Suc snd_bind del: run_graph.simps)
  qed
qed

lemma run_graph_first:
  assumes hb: "\<And>state h. I state \<Longrightarrow>
      filter f (snd (hyperbrowser_call_model X state h)) = [] \<and>
      (\<forall>u. fst (hyperbrowser_call_model X state h) = Inr u \<longrightarrow> J (apply_update state u))"
    and tba: "\<And>state h. J state \<Longrightarrow>
      filter f (snd (take_browser_action X state config h)) = [] \<and>
      (\<forall>u. fst (take_browser_action X state config h) = Inr u \<longrightarrow>
           reinvoke_model_or_end (apply_update state u) \<noteq> END \<longrightarrow> I (apply_update state u))"
    and first: "\<And>u. fst (hyperbrowser_call_model X state h) = Inr u \<Longrightarrow> J (apply_update state u)"
  shows "filter f (snd (run_graph (Suc n) X config state h)) =
         filter f (snd (hyperbrowser_call_model X state h))"
proof -
  obtain r es where m: "hyperbrowser_call_model X state h = (r, es)"
    by (cases "hyperbrowser_call_model X state h")
  show ?thesis
  proof (cases r)
    case (Inl e)
    with m show ?thesis by (simp add: run_graph_Suc snd_bind del: run_graph.simps)
  next
    case (Inr u)
    with first m have Ju: "J (apply_update state u)" by simp
    have rg: "filter f (snd (run_graph n X config st k)) = []" if "I st" for st k
      using run_graph_silent [where I = I and J = J and f = f, OF hb tba that] .
    have "filter f (snd (after_model n X config (apply_update state u) (h @ es))) = []"
      by (rule after_model_silent [where I = I and J = J, OF tba rg Ju])
    with m Inr show ?thesis by (simp add: run_graph_Suc snd_bind del: run_graph.simps)
  qed
qed

lemma hb_creates:
  "filter is_create (snd (hyperbrowser_call_model X state h)) = [] \<or>
   (\<not> truthy (session_id state) \<and>
    filter is_create (snd (hyperbrowser_call_model X state h)) = [EvSessionsCreate True 1024 800])"
proof -
  from hb_summary [of X state h] obtain es0 shot inv where
    s: "snd (hyperbrowser_call_model X state h) = es0 @ shot @ inv"
    and e: "es0 = [] \<or>
      (\<exists>page. es0 = hb_prepare_events state (sessions_answer X (h @ [session_event state])) page)"
    and sh: "shot = [] \<or> (\<exists>page. shot = [EvScreenshot page])"
    and i: "inv = [] \<or> (\<exists>prev sent. inv = [EvInvoke (hb_tools X) prev sent] \<and>
        (last_is_tool (messages state) \<longrightarrow> prev \<noteq> None \<and> sent = [last (messages state)]))"
    by blast
  from sh have 1: "filter is_create shot = []" by auto
  from i have 2: "filter is_create inv = []" by auto
  from e session_event_cases [of state]
  have "filter is_create es0 = [] \<or>
     (\<not> truthy (session_id state) \<and> filter is_create es0 = [EvSessionsCreate True 1024 800])"
    by auto
  with s 1 2 show ?thesis by auto
qed

lemma hb_session_id:
  assumes "fst (hyperbrowser_call_model X state h) = Inr u"
  shows "session_id (apply_update state u) =
           Some (sd_id (sessions_answer X (h @ [session_event state])))"
  using hb_summary [of X state h] assms by (auto simp: apply_update_def)

lemma tba_creates:
  assumes "truthy (session_id state)"
  shows "filter is_create (snd (take_browser_action X state config h)) = [] \<and>
     (\<forall>u. fst (take_browser_action X state config h) = Inr u \<longrightarrow>
        truthy (session_id (apply_update state u)))"
proof -
  from tba_summary [of X state config h] obtain es0 es1 where
    s: "snd (take_browser_action X state config h) = es0 @ es1"
    and d: "list_all is_dispatch_event es1"
    and c: "truthy (session_id state) \<longrightarrow> filter is_create es0 = []"
    and u: "\<forall>u. fst (take_browser_action X state config h) = Inr u \<longrightarrow>
        upd_conversation u = messages state \<and> upd_session_id u = session_id state \<and>
        (truthy (stream_url state) \<longrightarrow> upd_stream_url u = stream_url state)"
    by blast
  from s c assms dispatch_only_filters(1) [OF d] have "filter is_create (snd (take_browser_action X state config h)) = []"
    by simp
  with u assms show ?thesis by (auto simp: apply_update_def)
qed

lemma run_creates_known:
  assumes ids: "\<forall>h. sd_id (sessions_answer X h) \<noteq> []" and "truthy (session_id state)"
  shows "filter is_create (snd (run_graph n X config state h)) = []"
proof (rule run_graph_silent [where I = "\<lambda>s. truthy (session_id s)" and J = "\<lambda>s. truthy (session_id s)"])
  fix st :: cua_state and k :: "event list"
  assume t: "truthy (session_id st)"
  from hb_creates [of X st k] t
  have "filter is_create (snd (hyperbrowser_call_model X st k)) = []" by auto
  moreover have "truthy (session_id (apply_update st u))"
    if "fst (hyperbrowser_call_model X st k) = Inr u" for u
    using hb_session_id [OF that] ids by simp
  ultimately show "filter is_create (snd (hyperbrowser_call_model X st k)) = [] \<and>
      (\<forall>u. fst (hyperbrowser_call_model X st k) = Inr u \<longrightarrow> truthy (session_id (apply_update st u)))"
    by blast
next
  fix st :: cua_state and k :: "event list"
  assume t: "truthy (session_id st)"
  from tba_creates [OF t, of X config k]
  show "filter is_create (snd (take_browser_action X st config k)) = [] \<and>
      (\<forall>u. fst (take_browser_action X st config k) = Inr u \<longrightarrow>
           reinvoke_model_or_end (apply_update st u) \<noteq> END \<longrightarrow> truthy (session_id (apply_update st u)))"
    by blast
next
  show "truthy (session_id state)" by fact
qed

lemma run_creates_first:
  assumes ids: "\<forall>h. sd_id (sessions_answer X h) \<noteq> []"
  shows "filter is_create (snd (run_graph (Suc n) X config state h)) =
         filter is_create (snd (hyperbrowser_call_model X state h))"
proof (rule run_graph_first [where I = "\<lambda>s. truthy (session_id s)" and J = "\<lambda>s. truthy (session_id s)"])
  fix st :: cua_state and k :: "event list"
  assume t: "truthy (session_id st)"
  from hb_creates [of X st k] t
  have "filter is_create (snd (hyperbrowser_call_model X st k)) = []" by auto
  moreover have "truthy (session_id (apply_update st u))"
    if "fst (hyperbrowser_call_model X st k) = Inr u" for u
    using hb_session_id [OF that] ids by simp
  ultimately show "filter is_create (snd (hyperbrowser_call_model X st k)) = [] \<and>
      (\<forall>u. fst (hyperbrowser_call_model X st k) = Inr u \<longrightarrow> truthy (session_id (apply_update st u)))"
    by blast
next
  fix st :: cua_state and k :: "event list"
  assume t: "truthy (session_id st)"
  from tba_creates [OF t, of X config k]
  show "filter is_create (snd (take_browser_action X st config k)) = [] \<and>
      (\<forall>u. fst (take_browser_action X st config k) = Inr u \<longrightarrow>
           reinvoke_model_or_end (apply_update st u) \<noteq> END \<longrightarrow> truthy (session_id (apply_update st u)))"
    by blast
next
  fix u
  assume "fst (hyperbrowser_call_model X state h) = Inr u"
  from hb_session_id [OF this] ids show "truthy (session_id (apply_update state u))" by simp
qed

text \<open>
  C7. Let the provider answer every request with a session of non-empty identifier,
  and a resume with the session asked for. Then for a state with a known session
  identifier, either acquire path resumes that session (one resume request, no create
  request) and yields a session of the same identifier, which the model invoker
  writes back to the state. For a state without a session identifier it makes one
  create request, with captcha solving on and the display of 1024 by 800. A run of
  the graph from a state with a known identifier creates no session, and any run
  creates at most one.
\<close>

theorem session_acquired_once:
  assumes ids: "\<forall>h. sd_id (sessions_answer X h) \<noteq> []"
    and resume: "\<forall>h sid. sd_id (sessions_answer X (h @ [EvSessionsGet sid])) = sid \<or> sid = []"
  shows
    "(\<forall>sid. session_id state = Some sid \<and> sid \<noteq> [] \<longrightarrow>
        (truthy (env_api_key X) \<longrightarrow>
           (\<exists>s. init_or_load_without_config X state h = (Inr s, [EvSessionsGet sid]) \<and> sd_id s = sid)) \<and>
        (truthy (cfg_hyperbrowser_api_key config) \<longrightarrow>
           (\<exists>s. init_or_load X state config h = (Inr s, [EvSessionsGet sid]) \<and> sd_id s = sid)) \<and>
        (\<forall>u. fst (hyperbrowser_call_model X state h) = Inr u \<longrightarrow> upd_session_id u = Some sid)) \<and>
     (\<not> truthy (session_id state) \<longrightarrow>
        (truthy (env_api_key X) \<longrightarrow>
           snd (init_or_load_without_config X state h) = [EvSessionsCreate True 1024 800]) \<and>
        (truthy (cfg_hyperbrowser_api_key config) \<longrightarrow>
           snd (init_or_load X state config h) = [EvSessionsCreate True 1024 800])) \<and>
     (truthy (session_id state) \<longrightarrow>
        filter is_create (snd (run_graph n X config state h)) = []) \<and>
     length (filter is_create (snd (run_graph n X config state h))) \<le> 1"
proof -
  have known: "(truthy (env_api_key X) \<longrightarrow>
           (\<exists>s. init_or_load_without_config X state h = (Inr s, [EvSessionsGet sid]) \<and> sd_id s = sid)) \<and>
        (truthy (cfg_hyperbrowser_api_key config) \<longrightarrow>
           (\<exists>s. init_or_load X state config h = (Inr s, [EvSessionsGet sid]) \<and> sd_id s = sid)) \<and>
        (\<forall>u. fst (hyperbrowser_call_model X state h) = Inr u \<longrightarrow> upd_session_id u = Some sid)"
    if "session_id state = Some sid" "sid \<noteq> []" for sid
  proof -
    from that have ev: "session_event state = EvSessionsGet sid"
      by (simp add: session_event_def)
    from resume that(2) have r: "sd_id (sessions_answer X (h @ [EvSessionsGet sid])) = sid"
      by blast
    have "upd_session_id u = Some sid" if "fst (hyperbrowser_call_model X state h) = Inr u" for u
      using hb_summary [of X state h] that ev r by auto
    with ev r show ?thesis
      by (simp add: init_or_load_without_config_eq init_or_load_eq)
  qed
  have unknown: "(truthy (env_api_key X) \<longrightarrow>
           snd (init_or_load_without_config X state h) = [EvSessionsCreate True 1024 800]) \<and>
        (truthy (cfg_hyperbrowser_api_key config) \<longrightarrow>
           snd (init_or_load X state config h) = [EvSessionsCreate True 1024 800])"
    if "\<not> truthy (session_id state)"
    using that session_event_cases [of state]
    by (auto simp: init_or_load_without_config_eq init_or_load_eq)
  have once: "length (filter is_create (snd (run_graph n X config state h))) \<le> 1"
  proof (cases n)
    case 0
    then show ?thesis by (simp add: ret_def)
  next
    case (Suc m)
    with run_creates_first [OF ids, of m config state h] hb_creates [of X state h]
    show ?thesis by auto
  qed
  from known unknown once run_creates_known [OF ids] show ?thesis by blast
qed

lemma demo_ids: "\<forall>h. sd_id (sessions_answer (demo_ext url) h) \<noteq> []"
  by (simp add: demo_ext_def demo_sessions_def demo_session_def split: event.splits)

lemma demo_resume:
  "\<forall>h sid. sd_id (sessions_answer (demo_ext url) (h @ [EvSessionsGet sid])) = sid \<or> sid = []"
  by (simp add: demo_ext_def demo_sessions_def demo_session_def)

theorem session_acquired_once_witness:
  "(\<forall>h. sd_id (sessions_answer (demo_ext None) h) \<noteq> []) \<and>
   (\<exists>s. init_or_load_without_config (demo_ext None) (prepared [human_msg ''hi'']) [] =
          (Inr s, [EvSessionsGet ''s1'']) \<and> sd_id s = ''s1'') \<and>
   filter is_create
     (snd (run_graph 3 (demo_ext None) demo_config (prepared [human_msg ''hi'']) [])) = [] \<and>
   snd (init_or_load_without_config (demo_ext None) (state0 [human_msg ''hi'']) []) =
     [EvSessionsCreate True 1024 800] \<and>
   length (filter is_create
     (snd (run_graph 3 (demo_ext None) demo_config (state0 [human_msg ''hi'']) []))) \<le> 1"
proof -
  have k: "truthy (env_api_key (demo_ext None))" by (simp add: demo_ext_def)
  have s: "session_id (prepared [human_msg ''hi'']) = Some ''s1''" "''s1'' \<noteq> []"
    "truthy (session_id (prepared [human_msg ''hi'']))"
    "\<not> truthy (session_id (state0 [human_msg ''hi'']))"
    by (simp_all add: prepared_def state0_def)
  from session_acquired_once [OF demo_ids [of None] demo_resume [of None], where state = "prepared [human_msg ''hi'']"
      and h = "[]" and config = demo_config and n = 3]
    session_acquired_once [OF demo_ids [of None] demo_resume [of None], where state = "state0 [human_msg ''hi'']"
      and h = "[]" and config = demo_config and n = 3]
    k s demo_ids [of None]
  show ?thesis by simp
qed

























lemma invocations_Cons [simp]:
  "invocations (e # es) = (if is_invoke e then e # invocations es else invocations es)"
  by (simp add: invocations_def)





end
